theory Spec2Isabelle
  imports Main
begin

section \<open>JavaScript values used by the client\<close>

text \<open>
  The client is TypeScript running on a JavaScript engine. Only the fragments of
  the language that the modelled functions use are embedded: truthiness of strings,
  \<^verbatim>\<open>Array.prototype.join\<close> on arrays of strings and the insertion-ordered
  \<^verbatim>\<open>Set\<close> of strings.
\<close>

text \<open>A string is falsy exactly when it is empty.\<close>

definition truthy :: "string \<Rightarrow> bool" where
  "truthy s = (s \<noteq> [])"

text \<open>An optional string (\<^verbatim>\<open>string | null | undefined\<close>) is truthy when it is
  present and non-empty.\<close>

definition truthy_opt :: "string option \<Rightarrow> bool" where
  "truthy_opt v = (case v of None \<Rightarrow> False | Some s \<Rightarrow> truthy s)"

text \<open>\<^verbatim>\<open>a || b\<close> on optional strings.\<close>

definition or_else :: "string option \<Rightarrow> string option \<Rightarrow> string option" where
  "or_else a b = (if truthy_opt a then a else b)"

text \<open>\<^verbatim>\<open>xs.join(sep)\<close> for an array of strings.\<close>

fun js_join :: "string \<Rightarrow> string list \<Rightarrow> string" where
  "js_join sep [] = []"
| "js_join sep [x] = x"
| "js_join sep (x # y # ys) = x @ sep @ js_join sep (y # ys)"

section \<open>Errors\<close>

text \<open>
  The value stored under one field of the \<^verbatim>\<open>errors\<close> object of a response body:
  an array of messages (the Laravel validation format) or a single bare message, which
  \<^verbatim>\<open>handleError\<close> wraps into a one-element array.
\<close>

datatype field_messages = MsgArray "string list" | MsgSingle string

text \<open>
  The body of an error response (\<^verbatim>\<open>errorData\<close>). The \<^verbatim>\<open>errors\<close> object is an
  association list in the enumeration order of \<^verbatim>\<open>Object.values\<close> and
  \<^verbatim>\<open>Object.entries\<close>. An object is truthy even when it has no fields.
\<close>

record error_data =
  data_message :: "string option"
  data_errors :: "(string \<times> field_messages) list option"

record axios_response =
  status :: int
  data :: "error_data option"

text \<open>
  What a \<^verbatim>\<open>catch\<close> clause can receive: an error of the transport
  (\<^verbatim>\<open>axios.isAxiosError\<close>) with its message and optional response, or any other
  thrown value with its optional message.
\<close>

datatype thrown = AxiosError string "axios_response option" | OtherError "string option"

text \<open>The \<^verbatim>\<open>Error\<close> built by the client, with the two attached properties.\<close>

record js_error =
  err_message :: string
  err_data :: "error_data option"
  err_statusCode :: "int option"

definition new_Error :: "string \<Rightarrow> js_error" where
  "new_Error m = \<lparr>err_message = m, err_data = None, err_statusCode = None\<rparr>"

text \<open>\<^verbatim>\<open>axiosError.response?.data\<close>\<close>

definition response_data :: "axios_response option \<Rightarrow> error_data option" where
  "response_data resp = (case resp of None \<Rightarrow> None | Some r \<Rightarrow> data r)"

text \<open>
  The detailed-message step: \<^verbatim>\<open>Object.values(errorData.errors)[0]\<close>, kept when it
  is a non-empty array, whose element 0 is then taken.
\<close>

definition firstFieldErrors :: "(string \<times> field_messages) list \<Rightarrow> string option" where
  "firstFieldErrors es =
     (case map snd es of
        MsgArray (m # ms) # rest \<Rightarrow> Some m
      | _ \<Rightarrow> None)"

text \<open>\<^verbatim>\<open>Array.isArray(messages) ? messages : [messages]\<close>\<close>

definition msgs :: "field_messages \<Rightarrow> string list" where
  "msgs messages = (case messages of MsgArray ms \<Rightarrow> ms | MsgSingle m \<Rightarrow> [m])"

text \<open>The \<^verbatim>\<open>fieldErrors\<close> string: the callback ignores the field name.\<close>

definition fieldErrors :: "(string \<times> field_messages) list \<Rightarrow> string" where
  "fieldErrors es = js_join ''; '' (map (\<lambda>(field, messages). js_join '', '' (msgs messages)) es)"

text \<open>The value of \<^verbatim>\<open>errorMessage\<close> after the first \<^verbatim>\<open>if / else if\<close>.\<close>

definition errorMessage_step1 :: "error_data \<Rightarrow> string \<Rightarrow> bool \<Rightarrow> string" where
  "errorMessage_step1 errorData message preferDetailedMessage =
     (if preferDetailedMessage \<and> data_errors errorData \<noteq> None then
        (case firstFieldErrors (the (data_errors errorData)) of
           Some m \<Rightarrow> m
         | None \<Rightarrow> message)
      else if truthy_opt (data_message errorData) then the (data_message errorData)
      else message)"

text \<open>The value of \<^verbatim>\<open>errorMessage\<close> after the second \<^verbatim>\<open>if\<close>.\<close>

definition errorMessage_step2 :: "error_data \<Rightarrow> string \<Rightarrow> string \<Rightarrow> string" where
  "errorMessage_step2 errorData message errorMessage =
     (if errorMessage = message \<and> data_errors errorData \<noteq> None then
        (if truthy (fieldErrors (the (data_errors errorData)))
         then fieldErrors (the (data_errors errorData))
         else errorMessage)
      else errorMessage)"

definition handleError :: "thrown \<Rightarrow> string \<Rightarrow> bool \<Rightarrow> js_error" where
  "handleError error message preferDetailedMessage =
     (case error of
        AxiosError axios_message response \<Rightarrow>
          (case response_data response of
             Some errorData \<Rightarrow>
               \<lparr>err_message =
                  errorMessage_step2 errorData message
                    (errorMessage_step1 errorData message preferDetailedMessage),
                err_data = Some errorData,
                err_statusCode = map_option status response\<rparr>
           | None \<Rightarrow> new_Error (message @ '': '' @ axios_message))
      | OtherError m \<Rightarrow>
          new_Error (message @ '': '' @ (if truthy_opt m then the m else ''Unknown error'')))"

section \<open>Permissions nested in roles\<close>

datatype ident = IdString string | IdNumber int

record permission =
  permission_id :: ident
  permission_name :: string

text \<open>
  An element of \<^verbatim>\<open>role.permissions\<close>: the declared type is \<^verbatim>\<open>Permission\<close>, the
  code also accepts a bare string (\<^verbatim>\<open>typeof permission === 'string'\<close>).
\<close>

datatype role_permission = PermString string | PermObject permission

record role =
  role_id :: ident
  role_name :: string
  role_permissions :: "role_permission list option"

text \<open>Of the fields of \<^verbatim>\<open>User\<close>, the optional ones that no modelled function
  reads (phone, status, departments, positions) are left out.\<close>

record user =
  user_id :: ident
  user_name :: string
  user_email :: string
  user_roles :: "role list option"

record token_verification_response =
  tv_user :: "user option"
  tv_permissions :: "string list option"
  tv_roles :: "string list"

record login_response =
  lr_access_token :: string
  lr_token_type :: string
  lr_expires_in :: int
  lr_user :: "user option"
  lr_permissions :: "string list option"

text \<open>
  A \<^verbatim>\<open>Set\<close> of strings is its list of members in insertion order.
  \<^verbatim>\<open>add\<close> of a member that is present changes nothing.
\<close>

definition set_add :: "string \<Rightarrow> string list \<Rightarrow> string list" where
  "set_add x s = (if x \<in> set s then s else s @ [x])"

fun add_all :: "string list \<Rightarrow> string list \<Rightarrow> string list" where
  "add_all [] s = s"
| "add_all (x # xs) s = add_all xs (set_add x s)"

text \<open>\<^verbatim>\<open>new Set(iterable)\<close> adds the elements in order to an empty set.\<close>

definition new_Set :: "string list \<Rightarrow> string list" where
  "new_Set xs = add_all xs []"

definition Array_from :: "string list \<Rightarrow> string list" where
  "Array_from s = s"

definition permName :: "role_permission \<Rightarrow> string" where
  "permName p = (case p of PermString s \<Rightarrow> s | PermObject q \<Rightarrow> permission_name q)"

text \<open>The inner loop \<^verbatim>\<open>for (const permission of role.permissions)\<close>.\<close>

fun for_permissions :: "role_permission list \<Rightarrow> string list \<Rightarrow> string list" where
  "for_permissions [] permissions = permissions"
| "for_permissions (p # ps) permissions = for_permissions ps (set_add (permName p) permissions)"

text \<open>The outer loop \<^verbatim>\<open>for (const role of roles)\<close> with its test
  \<^verbatim>\<open>if (role.permissions)\<close>.\<close>

fun for_roles :: "role list \<Rightarrow> string list \<Rightarrow> string list" where
  "for_roles [] permissions = permissions"
| "for_roles (r # rs) permissions =
     for_roles rs
       (case role_permissions r of
          None \<Rightarrow> permissions
        | Some ps \<Rightarrow> for_permissions ps permissions)"

text \<open>\<^verbatim>\<open>x.user?.roles\<close>\<close>

definition roles_of :: "user option \<Rightarrow> role list option" where
  "roles_of u = (case u of None \<Rightarrow> None | Some v \<Rightarrow> user_roles v)"

definition extractPermissionsFromLoginResponse :: "login_response \<Rightarrow> string list" where
  "extractPermissionsFromLoginResponse response =
     (let permissions = new_Set (case lr_permissions response of None \<Rightarrow> [] | Some ps \<Rightarrow> ps)
      in Array_from
           (case roles_of (lr_user response) of
              None \<Rightarrow> permissions
            | Some rs \<Rightarrow> for_roles rs permissions))"

definition enrichPermissionsFromRoles ::
  "token_verification_response \<Rightarrow> token_verification_response" where
  "enrichPermissionsFromRoles d =
     (let permissions = new_Set (case tv_permissions d of None \<Rightarrow> [] | Some ps \<Rightarrow> ps)
      in d\<lparr>tv_permissions :=
             Some (Array_from
                     (case roles_of (tv_user d) of
                        None \<Rightarrow> permissions
                      | Some rs \<Rightarrow> for_roles rs permissions))\<rparr>)"

section \<open>The client\<close>

record login_credentials =
  cred_email :: string
  cred_password :: string

record permission_check_response =
  has_permission :: bool
  pc_permission :: string

record role_check_response =
  has_role :: bool
  rc_role :: string

text \<open>\<^verbatim>\<open>access_token\<close> is tested for truthiness by \<^verbatim>\<open>refreshToken\<close>, so it is
  optional here.\<close>

record refresh_token_response =
  rt_access_token :: "string option"
  rt_token_type :: string
  rt_expires_in :: int

datatype request_body =
  NoBody
| EmptyObject
| LoginBody login_credentials
| PermissionBody string
| RoleBody string

record request =
  req_method :: string
  req_url :: string
  req_body :: request_body
  req_authorization :: "string option"

text \<open>
  The two callbacks of the configuration. A callback is code of the caller: the model
  records that it was called and lets its call throw (\<open>Some e\<close>) or return
  (\<open>None\<close>); it does not call back into the client.
\<close>

record iam_config =
  onTokenRefresh :: "(string \<Rightarrow> thrown option) option"
  onAuthError :: "(js_error \<Rightarrow> thrown option) option"

record cache_entry =
  cached_data :: token_verification_response
  timestamp :: int

text \<open>What the client does to the outside, in order.\<close>

datatype event =
  Sent request
| ConsoleError string
| TokenRefreshCalled string
| AuthErrorCalled js_error

text \<open>
  The fields of \<^verbatim>\<open>IAMClient\<close>, and the trace of its effects. \<^verbatim>\<open>tokenCache\<close> is
  the \<^verbatim>\<open>Map\<close> from cache key to entry.
\<close>

record client =
  config :: iam_config
  token :: "string option"
  tokenCache :: "string \<rightharpoonup> cache_entry"
  events :: "event list"

definition cacheDuration :: int where
  "cacheDuration = 60000"

definition emit :: "event \<Rightarrow> client \<Rightarrow> client" where
  "emit e c = c\<lparr>events := events c @ [e]\<rparr>"

definition setToken :: "string \<Rightarrow> client \<Rightarrow> client" where
  "setToken t c = c\<lparr>token := Some t\<rparr>"

definition getToken :: "client \<Rightarrow> string option" where
  "getToken c = token c"

definition clearTokenCache :: "client \<Rightarrow> client" where
  "clearTokenCache c = c\<lparr>tokenCache := Map.empty\<rparr>"

definition clearToken :: "client \<Rightarrow> client" where
  "clearToken c = clearTokenCache (c\<lparr>token := None\<rparr>)"

subsection \<open>Transport and interceptors\<close>

text \<open>The request interceptor attaches the current token when there is one,
  replacing a header given by the call.\<close>

definition request_interceptor :: "client \<Rightarrow> request \<Rightarrow> request" where
  "request_interceptor c r =
     (if truthy_opt (token c)
      then r\<lparr>req_authorization := Some (''Bearer '' @ the (token c))\<rparr>
      else r)"

text \<open>\<^verbatim>\<open>error.response?.status\<close>\<close>

definition error_status :: "thrown \<Rightarrow> int option" where
  "error_status error =
     (case error of AxiosError m response \<Rightarrow> map_option status response | OtherError m \<Rightarrow> None)"

text \<open>The response interceptor's rejection handler: on status 401 it calls
  \<^verbatim>\<open>onAuthError\<close> when configured, then rejects with the same error.\<close>

definition response_interceptor :: "thrown \<Rightarrow> client \<Rightarrow> thrown \<times> client" where
  "response_interceptor error c =
     (if error_status error = Some 401 \<and> onAuthError (config c) \<noteq> None then
        (case the (onAuthError (config c)) (new_Error ''Authentication failed'') of
           None \<Rightarrow> (error, emit (AuthErrorCalled (new_Error ''Authentication failed'')) c)
         | Some e \<Rightarrow> (e, emit (AuthErrorCalled (new_Error ''Authentication failed'')) c))
      else (error, c))"

text \<open>
  One request through \<^verbatim>\<open>this.client\<close>. The remote service is the parameter
  \<open>transport\<close>: it answers a request with a response body or makes the call reject.
\<close>

definition send :: "(request \<Rightarrow> thrown + 'r) \<Rightarrow> request \<Rightarrow> client \<Rightarrow> (thrown + 'r) \<times> client" where
  "send transport r c =
     (case transport (request_interceptor c r) of
        Inr response \<Rightarrow> (Inr response, emit (Sent (request_interceptor c r)) c)
      | Inl error \<Rightarrow>
          (case response_interceptor error (emit (Sent (request_interceptor c r)) c) of
             (e, c') \<Rightarrow> (Inl e, c')))"

text \<open>\<^verbatim>\<open>token ? { Authorization: `Bearer ${token}` } : {}\<close>\<close>

definition headers :: "string option \<Rightarrow> string option" where
  "headers tok = (if truthy_opt tok then Some (''Bearer '' @ the tok) else None)"

subsection \<open>Authentication\<close>

text \<open>
  The body of a 2xx answer is JSON that nothing checks against the declared type
  \<^verbatim>\<open>LoginResponse\<close> before \<^verbatim>\<open>login\<close> uses it. Where the type declares an array,
  the body received can hold an array or a truthy value that cannot be iterated (an
  object, as a PHP array with gaps in its keys is serialised, or a number); on such a
  value \<^verbatim>\<open>new Set(...)\<close> and \<^verbatim>\<open>for ... of\<close> throw a \<^verbatim>\<open>TypeError\<close>, whose
  message \<open>NotIterable\<close> carries. The elements of an array are as declared.
\<close>

datatype 'a received_list = JsArray "'a list" | NotIterable string

record received_role =
  rr_id :: ident
  rr_name :: string
  rr_permissions :: "role_permission received_list option"

record received_user =
  ru_id :: ident
  ru_name :: string
  ru_email :: string
  ru_roles :: "received_role received_list option"

record received_login =
  rl_access_token :: string
  rl_token_type :: string
  rl_expires_in :: int
  rl_user :: "received_user option"
  rl_permissions :: "string received_list option"

text \<open>
  \<^verbatim>\<open>extractPermissionsFromLoginResponse\<close> run on a received body: the same
  statements as above, each iteration throwing where its operand cannot be iterated.
  A \<^verbatim>\<open>TypeError\<close> is not an error of the transport.
\<close>

fun for_received_roles :: "received_role list \<Rightarrow> string list \<Rightarrow> thrown + string list" where
  "for_received_roles [] permissions = Inr permissions"
| "for_received_roles (r # rs) permissions =
     (case rr_permissions r of
        None \<Rightarrow> for_received_roles rs permissions
      | Some (NotIterable m) \<Rightarrow> Inl (OtherError (Some m))
      | Some (JsArray ps) \<Rightarrow> for_received_roles rs (for_permissions ps permissions))"

text \<open>\<^verbatim>\<open>response.user?.roles\<close>\<close>

definition received_roles_of :: "received_user option \<Rightarrow> received_role received_list option" where
  "received_roles_of u = (case u of None \<Rightarrow> None | Some v \<Rightarrow> ru_roles v)"

definition extractPermissionsFromLoginResponse_received ::
  "received_login \<Rightarrow> thrown + string list" where
  "extractPermissionsFromLoginResponse_received response =
     (case rl_permissions response of
        Some (NotIterable m) \<Rightarrow> Inl (OtherError (Some m))
      | flat \<Rightarrow>
          (let permissions = new_Set (case flat of Some (JsArray ps) \<Rightarrow> ps | _ \<Rightarrow> [])
           in case received_roles_of (rl_user response) of
                None \<Rightarrow> Inr (Array_from permissions)
              | Some (NotIterable m) \<Rightarrow> Inl (OtherError (Some m))
              | Some (JsArray rs) \<Rightarrow>
                  (case for_received_roles rs permissions of
                     Inl error \<Rightarrow> Inl error
                   | Inr permissions' \<Rightarrow> Inr (Array_from permissions'))))"

text \<open>
  \<^verbatim>\<open>login\<close>: one \<^verbatim>\<open>try\<close> block holds the request, \<^verbatim>\<open>setToken\<close> and, after it,
  the reconciler; its \<^verbatim>\<open>catch\<close> normalizes whatever was thrown, by the request or by
  the reconciler.
\<close>

definition login ::
  "(request \<Rightarrow> thrown + received_login) \<Rightarrow> login_credentials \<Rightarrow> client
     \<Rightarrow> (js_error + received_login) \<times> client" where
  "login transport credentials c =
     (case send transport
             \<lparr>req_method = ''POST'', req_url = ''/auth/login'',
              req_body = LoginBody credentials, req_authorization = None\<rparr> c of
        (Inr response, c1) \<Rightarrow>
          (case extractPermissionsFromLoginResponse_received response of
             Inr permissions \<Rightarrow>
               (Inr (response\<lparr>rl_permissions := Some (JsArray permissions)\<rparr>),
                setToken (rl_access_token response) c1)
           | Inl error \<Rightarrow>
               (Inl (handleError error ''Login failed'' False),
                setToken (rl_access_token response) c1))
      | (Inl error, c1) \<Rightarrow> (Inl (handleError error ''Login failed'' False), c1))"

definition cacheKey :: "string \<Rightarrow> string" where
  "cacheKey tokenToVerify = ''token_'' @ tokenToVerify"

text \<open>
  \<^verbatim>\<open>verifyToken\<close> reads the clock twice: \<open>now_read\<close> when it looks the token up,
  \<open>now_write\<close> when it stores the answer of the service. \<open>verify_live\<close> is its
  \<^verbatim>\<open>try / catch\<close> block, entered on a miss or an expired entry.
\<close>

definition verify_live ::
  "(request \<Rightarrow> thrown + token_verification_response) \<Rightarrow> int \<Rightarrow> string \<Rightarrow> client
     \<Rightarrow> (js_error + token_verification_response) \<times> client" where
  "verify_live transport now_write tokenToVerify c =
     (case send transport
             \<lparr>req_method = ''GET'', req_url = ''/auth/me'', req_body = NoBody,
              req_authorization = Some (''Bearer '' @ tokenToVerify)\<rparr> c of
        (Inr response, c1) \<Rightarrow>
          (Inr (enrichPermissionsFromRoles response),
           c1\<lparr>tokenCache := (tokenCache c1)(cacheKey tokenToVerify \<mapsto>
                  \<lparr>cached_data = enrichPermissionsFromRoles response, timestamp = now_write\<rparr>)\<rparr>)
      | (Inl error, c1) \<Rightarrow>
          (Inl (handleError error ''Token verification failed'' False),
           c1\<lparr>tokenCache := (tokenCache c1)(cacheKey tokenToVerify := None)\<rparr>))"

definition verifyToken ::
  "(request \<Rightarrow> thrown + token_verification_response) \<Rightarrow> int \<Rightarrow> int \<Rightarrow> string option \<Rightarrow> client
     \<Rightarrow> (js_error + token_verification_response) \<times> client" where
  "verifyToken transport now_read now_write tok c =
     (let tokenToVerify = or_else tok (token c) in
      if \<not> truthy_opt tokenToVerify then (Inl (new_Error ''No token provided''), c)
      else
        (case tokenCache c (cacheKey (the tokenToVerify)) of
           Some cached \<Rightarrow>
             if now_read - timestamp cached < cacheDuration then (Inr (cached_data cached), c)
             else verify_live transport now_write (the tokenToVerify) c
         | None \<Rightarrow> verify_live transport now_write (the tokenToVerify) c))"

subsection \<open>Authorization checks\<close>

definition hasPermission ::
  "(request \<Rightarrow> thrown + permission_check_response) \<Rightarrow> string \<Rightarrow> string option \<Rightarrow> client
     \<Rightarrow> (js_error + bool) \<times> client" where
  "hasPermission transport permission tok c =
     (case send transport
             \<lparr>req_method = ''POST'', req_url = ''/auth/check-permission'',
              req_body = PermissionBody permission, req_authorization = headers tok\<rparr> c of
        (Inr response, c1) \<Rightarrow> (Inr (has_permission response), c1)
      | (Inl error, c1) \<Rightarrow> (Inr False, emit (ConsoleError ''Permission check failed:'') c1))"

definition hasRole ::
  "(request \<Rightarrow> thrown + role_check_response) \<Rightarrow> string \<Rightarrow> string option \<Rightarrow> client
     \<Rightarrow> (js_error + bool) \<times> client" where
  "hasRole transport role tok c =
     (case send transport
             \<lparr>req_method = ''POST'', req_url = ''/auth/check-role'',
              req_body = RoleBody role, req_authorization = headers tok\<rparr> c of
        (Inr response, c1) \<Rightarrow> (Inr (has_role response), c1)
      | (Inl error, c1) \<Rightarrow> (Inr False, emit (ConsoleError ''Role check failed:'') c1))"

subsection \<open>Refresh and logout\<close>

text \<open>The callback runs inside the \<^verbatim>\<open>try\<close> block, so what it throws is caught and
  normalized like a failure of the request.\<close>

definition refreshToken ::
  "(request \<Rightarrow> thrown + refresh_token_response) \<Rightarrow> string option \<Rightarrow> client
     \<Rightarrow> (js_error + refresh_token_response) \<times> client" where
  "refreshToken transport tok c =
     (case send transport
             \<lparr>req_method = ''POST'', req_url = ''/auth/refresh'',
              req_body = EmptyObject, req_authorization = headers tok\<rparr> c of
        (Inr response, c1) \<Rightarrow>
          if truthy_opt (rt_access_token response) then
            (case onTokenRefresh (config c1) of
               None \<Rightarrow> (Inr response, setToken (the (rt_access_token response)) c1)
             | Some callback \<Rightarrow>
                 (case callback (the (rt_access_token response)) of
                    None \<Rightarrow>
                      (Inr response,
                       emit (TokenRefreshCalled (the (rt_access_token response)))
                         (setToken (the (rt_access_token response)) c1))
                  | Some error \<Rightarrow>
                      (Inl (handleError error ''Token refresh failed'' False),
                       emit (TokenRefreshCalled (the (rt_access_token response)))
                         (setToken (the (rt_access_token response)) c1))))
          else (Inr response, c1)
      | (Inl error, c1) \<Rightarrow> (Inl (handleError error ''Token refresh failed'' False), c1))"

definition logout ::
  "(request \<Rightarrow> thrown + unit) \<Rightarrow> string option \<Rightarrow> client \<Rightarrow> (js_error + unit) \<times> client" where
  "logout transport tok c =
     (case send transport
             \<lparr>req_method = ''POST'', req_url = ''/auth/logout'',
              req_body = EmptyObject, req_authorization = headers tok\<rparr> c of
        (Inr response, c1) \<Rightarrow> (Inr (), clearToken c1)
      | (Inl error, c1) \<Rightarrow> (Inr (), clearToken (emit (ConsoleError ''Logout failed:'') c1)))"

definition logoutAll ::
  "(request \<Rightarrow> thrown + unit) \<Rightarrow> string option \<Rightarrow> client \<Rightarrow> (js_error + unit) \<times> client" where
  "logoutAll transport tok c =
     (case send transport
             \<lparr>req_method = ''POST'', req_url = ''/auth/logout-all'',
              req_body = EmptyObject, req_authorization = headers tok\<rparr> c of
        (Inr response, c1) \<Rightarrow> (Inr (), clearToken c1)
      | (Inl error, c1) \<Rightarrow> (Inl (handleError error ''Logout all failed'' False), c1))"

section \<open>The React binding and the route guard\<close>

text \<open>The state held by \<^verbatim>\<open>IAMProvider\<close>: the client and the three state variables.\<close>

record iam_context =
  ctx_client :: client
  ctx_user :: "user option"
  ctx_token :: "string option"
  ctx_isLoading :: bool

text \<open>\<^verbatim>\<open>isAuthenticated: !!user\<close>\<close>

definition isAuthenticated :: "iam_context \<Rightarrow> bool" where
  "isAuthenticated ctx = (ctx_user ctx \<noteq> None)"

definition ctx_hasPermission ::
  "(request \<Rightarrow> thrown + permission_check_response) \<Rightarrow> string \<Rightarrow> iam_context
     \<Rightarrow> (js_error + bool) \<times> iam_context" where
  "ctx_hasPermission transport permission ctx =
     (if \<not> truthy_opt (ctx_token ctx) then (Inr False, ctx)
      else
        (case hasPermission transport permission (ctx_token ctx) (ctx_client ctx) of
           (r, c') \<Rightarrow> (r, ctx\<lparr>ctx_client := c'\<rparr>)))"

definition ctx_hasRole ::
  "(request \<Rightarrow> thrown + role_check_response) \<Rightarrow> string \<Rightarrow> iam_context
     \<Rightarrow> (js_error + bool) \<times> iam_context" where
  "ctx_hasRole transport role ctx =
     (if \<not> truthy_opt (ctx_token ctx) then (Inr False, ctx)
      else
        (case hasRole transport role (ctx_token ctx) (ctx_client ctx) of
           (r, c') \<Rightarrow> (r, ctx\<lparr>ctx_client := c'\<rparr>)))"

text \<open>The guard's own state \<^verbatim>\<open>hasAccess\<close> (\<^verbatim>\<open>null\<close> until decided) beside the
  context it reads.\<close>

record guard =
  guard_ctx :: iam_context
  hasAccess :: "bool option"

text \<open>The effect's \<^verbatim>\<open>checkAccess\<close>. An awaited check that rejected would leave
  \<^verbatim>\<open>hasAccess\<close> as it was.\<close>

definition checkAccess ::
  "(request \<Rightarrow> thrown + permission_check_response) \<Rightarrow> (request \<Rightarrow> thrown + role_check_response)
     \<Rightarrow> string option \<Rightarrow> string option \<Rightarrow> guard \<Rightarrow> (js_error + unit) \<times> guard" where
  "checkAccess ptransport rtransport requiredPermission requiredRole g =
     (if \<not> isAuthenticated (guard_ctx g) then (Inr (), g\<lparr>hasAccess := Some False\<rparr>)
      else if truthy_opt requiredPermission then
        (case ctx_hasPermission ptransport (the requiredPermission) (guard_ctx g) of
           (Inr permitted, ctx') \<Rightarrow> (Inr (), g\<lparr>guard_ctx := ctx', hasAccess := Some permitted\<rparr>)
         | (Inl e, ctx') \<Rightarrow> (Inl e, g\<lparr>guard_ctx := ctx'\<rparr>))
      else if truthy_opt requiredRole then
        (case ctx_hasRole rtransport (the requiredRole) (guard_ctx g) of
           (Inr hasRequiredRole, ctx') \<Rightarrow>
             (Inr (), g\<lparr>guard_ctx := ctx', hasAccess := Some hasRequiredRole\<rparr>)
         | (Inl e, ctx') \<Rightarrow> (Inl e, g\<lparr>guard_ctx := ctx'\<rparr>))
      else (Inr (), g\<lparr>hasAccess := Some True\<rparr>))"

datatype rendered = Fallback | Unauthorized "string option" | Children

text \<open>What the component returns; \<open>Unauthorized\<close> carries the address the window was
  sent to, if any.\<close>

definition render :: "bool \<Rightarrow> string \<Rightarrow> guard \<Rightarrow> rendered" where
  "render window_defined redirectTo g =
     (if ctx_isLoading (guard_ctx g) \<or> hasAccess g = None then Fallback
      else if \<not> the (hasAccess g) then
        Unauthorized (if window_defined \<and> truthy redirectTo then Some redirectTo else None)
      else Children)"

section \<open>Notions used to state the properties\<close>

text \<open>The permission names one role contributes, in order.\<close>

definition role_names :: "role \<Rightarrow> string list" where
  "role_names r = (case role_permissions r of None \<Rightarrow> [] | Some ps \<Rightarrow> map permName ps)"

definition role_permission_names :: "role list option \<Rightarrow> string list" where
  "role_permission_names rs = (case rs of None \<Rightarrow> [] | Some rs' \<Rightarrow> concat (map role_names rs'))"

text \<open>Every name offered to the set, in the order the specification gives: the flat
  list (empty when absent), then the names of the roles, role by role.\<close>

definition inserted_names :: "string list option \<Rightarrow> role list option \<Rightarrow> string list" where
  "inserted_names flat rs =
     (case flat of None \<Rightarrow> [] | Some ps \<Rightarrow> ps) @ role_permission_names rs"

text \<open>
  The summary of the field errors in the words of the specification:
  ``field: joined-messages'' for each field, separated by semicolons. It is stated to
  be compared with \<open>fieldErrors\<close>, which is what the source computes.
\<close>

definition spec_fieldErrors :: "(string \<times> field_messages) list \<Rightarrow> string" where
  "spec_fieldErrors es =
     js_join ''; '' (map (\<lambda>(field, messages). field @ '': '' @ js_join '', '' (msgs messages)) es)"

text \<open>A body of the declared type, seen as a received body: every list is an array.\<close>

definition received_role_of :: "role \<Rightarrow> received_role" where
  "received_role_of r =
     \<lparr>rr_id = role_id r, rr_name = role_name r,
      rr_permissions = map_option JsArray (role_permissions r)\<rparr>"

definition received_user_of :: "user \<Rightarrow> received_user" where
  "received_user_of u =
     \<lparr>ru_id = user_id u, ru_name = user_name u, ru_email = user_email u,
      ru_roles = map_option (\<lambda>rs. JsArray (map received_role_of rs)) (user_roles u)\<rparr>"

definition received_login_of :: "login_response \<Rightarrow> received_login" where
  "received_login_of l =
     \<lparr>rl_access_token = lr_access_token l, rl_token_type = lr_token_type l,
      rl_expires_in = lr_expires_in l,
      rl_user = map_option received_user_of (lr_user l),
      rl_permissions = map_option JsArray (lr_permissions l)\<rparr>"

text \<open>The tokens with which \<^verbatim>\<open>onTokenRefresh\<close> was called, read off the trace.\<close>

fun refresh_calls :: "event list \<Rightarrow> string list" where
  "refresh_calls [] = []"
| "refresh_calls (TokenRefreshCalled t # es) = t # refresh_calls es"
| "refresh_calls (e # es) = refresh_calls es"

section \<open>The permission reconciler\<close>

lemma add_all_append: "add_all (xs @ ys) s = add_all ys (add_all xs s)"
  by (induction xs arbitrary: s) simp_all

lemma set_add_all: "set (add_all xs s) = set s \<union> set xs"
  by (induction xs arbitrary: s) (auto simp: set_add_def)

text \<open>Adding to the empty set keeps the first occurrence of every element.\<close>

lemma add_all_first_occurrence: "add_all xs [] = rev (remdups (rev xs))"
proof (induction xs rule: rev_induct)
  case Nil
  show ?case by simp
next
  case (snoc x xs)
  have step: "add_all (xs @ [x]) [] = set_add x (add_all xs [])"
    by (simp add: add_all_append)
  have mem: "set (add_all xs []) = set xs"
    by (simp add: set_add_all)
  show ?case
  proof (cases "x \<in> set xs")
    case True
    then show ?thesis using snoc step mem by (simp add: set_add_def)
  next
    case False
    then show ?thesis using snoc step mem by (simp add: set_add_def)
  qed
qed

lemma for_permissions_add_all: "for_permissions ps s = add_all (map permName ps) s"
  by (induction ps arbitrary: s) simp_all

lemma for_roles_add_all: "for_roles rs s = add_all (concat (map role_names rs)) s"
  by (induction rs arbitrary: s)
     (simp_all add: role_names_def add_all_append for_permissions_add_all split: option.split)

lemma collect_first_occurrence:
  "(case rs of
      None \<Rightarrow> new_Set (case flat of None \<Rightarrow> [] | Some ps \<Rightarrow> ps)
    | Some rs' \<Rightarrow> for_roles rs' (new_Set (case flat of None \<Rightarrow> [] | Some ps \<Rightarrow> ps)))
   = rev (remdups (rev (inserted_names flat rs)))"
proof (cases rs)
  case None
  then show ?thesis
    by (simp add: inserted_names_def role_permission_names_def new_Set_def
          add_all_first_occurrence)
next
  case (Some rs')
  have "for_roles rs' (new_Set (case flat of None \<Rightarrow> [] | Some ps \<Rightarrow> ps))
        = add_all ((case flat of None \<Rightarrow> [] | Some ps \<Rightarrow> ps) @ concat (map role_names rs')) []"
    by (simp only: new_Set_def for_roles_add_all add_all_append)
  also have "\<dots> = rev (remdups (rev (inserted_names flat rs)))"
    by (simp only: add_all_first_occurrence inserted_names_def role_permission_names_def
          Some option.case)
  finally show ?thesis using Some by simp
qed

text \<open>
  C2. Both copies of the reconciler, \<^verbatim>\<open>enrichPermissionsFromRoles\<close> and
  \<^verbatim>\<open>extractPermissionsFromLoginResponse\<close>, return the names offered to the set
  (the flat list, empty when absent, then each role's permission names, role by role and
  permission by permission) with every name kept at its first occurrence only, so the
  result has no duplicates; the verification response is otherwise returned as it came.
  When the flat list is a, b and the roles contribute b, c, the result is a, b, c.
\<close>

theorem reconciler_first_occurrence:
  "enrichPermissionsFromRoles d
     = d\<lparr>tv_permissions :=
           Some (rev (remdups (rev (inserted_names (tv_permissions d) (roles_of (tv_user d))))))\<rparr>
   \<and> extractPermissionsFromLoginResponse l
     = rev (remdups (rev (inserted_names (lr_permissions l) (roles_of (lr_user l)))))
   \<and> distinct (extractPermissionsFromLoginResponse l)
   \<and> distinct (the (tv_permissions (enrichPermissionsFromRoles d)))
   \<and> (tv_permissions d = Some [''a'', ''b'']
        \<and> role_permission_names (roles_of (tv_user d)) = [''b'', ''c'']
      \<longrightarrow> tv_permissions (enrichPermissionsFromRoles d) = Some [''a'', ''b'', ''c''])
   \<and> (lr_permissions l = Some [''a'', ''b'']
        \<and> role_permission_names (roles_of (lr_user l)) = [''b'', ''c'']
      \<longrightarrow> extractPermissionsFromLoginResponse l = [''a'', ''b'', ''c''])"
proof -
  have e: "enrichPermissionsFromRoles d
     = d\<lparr>tv_permissions :=
           Some (rev (remdups (rev (inserted_names (tv_permissions d) (roles_of (tv_user d))))))\<rparr>"
    by (simp add: enrichPermissionsFromRoles_def Array_from_def Let_def collect_first_occurrence)
  have x: "extractPermissionsFromLoginResponse l
     = rev (remdups (rev (inserted_names (lr_permissions l) (roles_of (lr_user l)))))"
    by (simp add: extractPermissionsFromLoginResponse_def Array_from_def Let_def
          collect_first_occurrence)
  have ex1: "tv_permissions (enrichPermissionsFromRoles d) = Some [''a'', ''b'', ''c'']"
    if "tv_permissions d = Some [''a'', ''b'']"
      and "role_permission_names (roles_of (tv_user d)) = [''b'', ''c'']"
    using that by (simp add: e inserted_names_def)
  have ex2: "extractPermissionsFromLoginResponse l = [''a'', ''b'', ''c'']"
    if "lr_permissions l = Some [''a'', ''b'']"
      and "role_permission_names (roles_of (lr_user l)) = [''b'', ''c'']"
    using that by (simp add: x inserted_names_def)
  show ?thesis
    using e x ex1 ex2 by simp
qed

text \<open>The example of the specification, with one role that names b as a bare string and
  c as an object, and a login response whose two roles contribute b and c.\<close>

theorem reconciler_first_occurrence_witness:
  "tv_permissions (enrichPermissionsFromRoles
      \<lparr>tv_user = Some \<lparr>user_id = IdNumber 1, user_name = ''u'', user_email = ''a@b.com'',
          user_roles = Some [\<lparr>role_id = IdNumber 1, role_name = ''admin'',
             role_permissions = Some [PermString ''b'',
               PermObject \<lparr>permission_id = IdNumber 7, permission_name = ''c''\<rparr>]\<rparr>]\<rparr>,
       tv_permissions = Some [''a'', ''b''], tv_roles = [''admin'']\<rparr>)
     = Some [''a'', ''b'', ''c'']
   \<and> extractPermissionsFromLoginResponse
      \<lparr>lr_access_token = ''T1'', lr_token_type = ''Bearer'', lr_expires_in = 3600,
       lr_user = Some \<lparr>user_id = IdNumber 1, user_name = ''u'', user_email = ''a@b.com'',
          user_roles = Some [\<lparr>role_id = IdNumber 1, role_name = ''r1'',
             role_permissions = Some [PermString ''b'']\<rparr>,
            \<lparr>role_id = IdNumber 2, role_name = ''r2'', role_permissions = None\<rparr>,
            \<lparr>role_id = IdNumber 3, role_name = ''r3'',
             role_permissions = Some [PermObject
               \<lparr>permission_id = IdNumber 7, permission_name = ''c''\<rparr>]\<rparr>]\<rparr>,
       lr_permissions = Some [''a'', ''b'']\<rparr>
     = [''a'', ''b'', ''c'']"
proof -
  define d where "d =
      \<lparr>tv_user = Some \<lparr>user_id = IdNumber 1, user_name = ''u'', user_email = ''a@b.com'',
          user_roles = Some [\<lparr>role_id = IdNumber 1, role_name = ''admin'',
             role_permissions = Some [PermString ''b'',
               PermObject \<lparr>permission_id = IdNumber 7, permission_name = ''c''\<rparr>]\<rparr>]\<rparr>,
       tv_permissions = Some [''a'', ''b''], tv_roles = [''admin'']\<rparr>"
  define l where "l =
      \<lparr>lr_access_token = ''T1'', lr_token_type = ''Bearer'', lr_expires_in = 3600,
       lr_user = Some \<lparr>user_id = IdNumber 1, user_name = ''u'', user_email = ''a@b.com'',
          user_roles = Some [\<lparr>role_id = IdNumber 1, role_name = ''r1'',
             role_permissions = Some [PermString ''b'']\<rparr>,
            \<lparr>role_id = IdNumber 2, role_name = ''r2'', role_permissions = None\<rparr>,
            \<lparr>role_id = IdNumber 3, role_name = ''r3'',
             role_permissions = Some [PermObject
               \<lparr>permission_id = IdNumber 7, permission_name = ''c''\<rparr>]\<rparr>]\<rparr>,
       lr_permissions = Some [''a'', ''b'']\<rparr>"
  have hd: "tv_permissions d = Some [''a'', ''b'']
      \<and> role_permission_names (roles_of (tv_user d)) = [''b'', ''c'']"
    by (simp add: d_def role_permission_names_def roles_of_def role_names_def permName_def)
  have hl: "lr_permissions l = Some [''a'', ''b'']
      \<and> role_permission_names (roles_of (lr_user l)) = [''b'', ''c'']"
    by (simp add: l_def role_permission_names_def roles_of_def role_names_def permName_def)
  from reconciler_first_occurrence [of d l] hd hl
  have "tv_permissions (enrichPermissionsFromRoles d) = Some [''a'', ''b'', ''c'']
      \<and> extractPermissionsFromLoginResponse l = [''a'', ''b'', ''c'']"
    by blast
  then show ?thesis
    by (simp only: d_def l_def)
qed

section \<open>The error normalizer\<close>

lemma err_message_structured:
  "err_message (handleError (AxiosError am (Some \<lparr>status = s, data = Some b\<rparr>)) message p)
     = errorMessage_step2 b message (errorMessage_step1 b message p)"
  by (simp add: handleError_def response_data_def)

text \<open>
  C3, as the code has it. With \<^verbatim>\<open>preferDetailedMessage\<close> set and a structured body:
  when the field-error map is present and its first field holds a non-empty array whose
  first message is not the fallback text, the error's message is that first message; when
  the body has no field-error map and a non-empty top-level message, the message is the
  top-level message. The body with errors otp: Invalid code and message Bad request gives
  Invalid code, whatever the fallback.
\<close>

theorem handleError_detailed_message:
  "(data_errors b = Some ((f, MsgArray (m # ms)) # rest) \<and> m \<noteq> message \<longrightarrow>
      err_message (handleError (AxiosError am (Some \<lparr>status = s, data = Some b\<rparr>)) message True)
        = m)
   \<and> (data_errors b = None \<and> data_message b = Some t \<and> t \<noteq> [] \<longrightarrow>
      err_message (handleError (AxiosError am (Some \<lparr>status = s, data = Some b\<rparr>)) message True)
        = t)
   \<and> err_message (handleError (AxiosError am (Some \<lparr>status = s, data = Some
        \<lparr>data_message = Some ''Bad request'',
         data_errors = Some [(''otp'', MsgArray [''Invalid code''])]\<rparr>\<rparr>)) message True)
      = ''Invalid code''"
  by (simp add: err_message_structured errorMessage_step1_def errorMessage_step2_def
        firstFieldErrors_def truthy_opt_def truthy_def fieldErrors_def msgs_def)

theorem handleError_detailed_message_witness:
  "err_message (handleError (AxiosError ''Request failed with status code 422''
       (Some \<lparr>status = 422, data = Some \<lparr>data_message = Some ''The given data was invalid.'',
          data_errors = Some [(''phone'', MsgArray [''Phone is required'', ''Phone must be 10 digits'']),
                              (''otp'', MsgArray [''Invalid code''])]\<rparr>\<rparr>)) ''Phone login failed'' True)
     = ''Phone is required''
   \<and> err_message (handleError (AxiosError ''Request failed with status code 404''
       (Some \<lparr>status = 404, data = Some \<lparr>data_message = Some ''Not registered'',
          data_errors = None\<rparr>\<rparr>)) ''Failed to send OTP'' True)
     = ''Not registered''"
  using handleError_detailed_message
      [of "\<lparr>data_message = Some ''The given data was invalid.'',
          data_errors = Some [(''phone'', MsgArray [''Phone is required'', ''Phone must be 10 digits'']),
                              (''otp'', MsgArray [''Invalid code''])]\<rparr>"
        "''phone''" "''Phone is required''" "[''Phone must be 10 digits'']"
        "[(''otp'', MsgArray [''Invalid code''])]" "''Phone login failed''"
        "''Request failed with status code 422''" 422 "''x''"]
    handleError_detailed_message
      [of "\<lparr>data_message = Some ''Not registered'', data_errors = None\<rparr>"
        "''f''" "''m''" "[]" "[]" "''Failed to send OTP''"
        "''Request failed with status code 404''" 404 "''Not registered''"]
  by simp

text \<open>
  The body below contains a top-level message and a field-error map without fields, and
  the preference is set. The guard of the detailed step fails, the top-level message is
  not consulted, and the summary of the field errors is empty: the error's message is
  the fallback text, which is neither a message of a field nor the top-level message.
\<close>

theorem handleError_detailed_message_counterexample:
  "data_errors \<lparr>data_message = Some ''Bad request'', data_errors = Some []\<rparr> \<noteq> None
   \<and> firstFieldErrors [] = None
   \<and> err_message (handleError (AxiosError ''Request failed with status code 422''
        (Some \<lparr>status = 422, data = Some \<lparr>data_message = Some ''Bad request'',
           data_errors = Some []\<rparr>\<rparr>)) ''Failed to send OTP'' True)
      = ''Failed to send OTP''
   \<and> err_message (handleError (AxiosError ''Request failed with status code 422''
        (Some \<lparr>status = 422, data = Some \<lparr>data_message = Some ''Bad request'',
           data_errors = Some []\<rparr>\<rparr>)) ''Failed to send OTP'' True)
      \<noteq> ''Bad request''"
  by (simp add: err_message_structured errorMessage_step1_def errorMessage_step2_def
        firstFieldErrors_def truthy_opt_def truthy_def fieldErrors_def msgs_def)

text \<open>
  Why the first message must differ from the fallback text: the second step recognises
  an unresolved text by comparing it with the fallback, so a first message equal to the
  fallback is replaced by the summary of all fields.
\<close>

lemma handleError_first_message_equal_to_fallback:
  "err_message (handleError (AxiosError ''Request failed with status code 422''
        (Some \<lparr>status = 422, data = Some \<lparr>data_message = Some ''Bad request'',
           data_errors = Some [(''phone'', MsgArray [''Phone login failed'']),
                               (''otp'', MsgArray [''Invalid code''])]\<rparr>\<rparr>)) ''Phone login failed'' True)
      = ''Phone login failed; Invalid code''"
  by (simp add: err_message_structured errorMessage_step1_def errorMessage_step2_def
        firstFieldErrors_def truthy_opt_def truthy_def fieldErrors_def msgs_def)

text \<open>
  C4, as the code has it. When the text is unresolved after the first step (the
  preference is set and the first field gives no message, or the preference is not set
  and the body has no non-empty top-level message) and the body contains a field-error
  map, the error's message is the messages of each field joined by a comma and a space,
  the fields joined by a semicolon and a space, without the field names, when that string
  is not empty, and the fallback text when it is.
\<close>

theorem handleError_field_errors:
  assumes "data_errors b = Some es"
    and "(p \<and> firstFieldErrors es = None) \<or> (\<not> p \<and> \<not> truthy_opt (data_message b))"
  shows "err_message (handleError (AxiosError am (Some \<lparr>status = s, data = Some b\<rparr>)) message p)
     = (if fieldErrors es \<noteq> [] then fieldErrors es else message)
   \<and> fieldErrors es = js_join ''; '' (map (\<lambda>e. js_join '', '' (msgs (snd e))) es)"
proof
  from assms have "errorMessage_step1 b message p = message"
    by (auto simp: errorMessage_step1_def)
  with assms(1)
  show "err_message (handleError (AxiosError am (Some \<lparr>status = s, data = Some b\<rparr>)) message p)
     = (if fieldErrors es \<noteq> [] then fieldErrors es else message)"
    by (simp add: err_message_structured errorMessage_step2_def truthy_def)
next
  show "fieldErrors es = js_join ''; '' (map (\<lambda>e. js_join '', '' (msgs (snd e))) es)"
    by (simp add: fieldErrors_def case_prod_unfold)
qed

theorem handleError_field_errors_witness:
  "err_message (handleError (AxiosError ''Request failed with status code 422''
        (Some \<lparr>status = 422, data = Some \<lparr>data_message = None,
           data_errors = Some [(''email'', MsgArray [''Required'', ''Must be an address'']),
                               (''password'', MsgSingle ''Too short'')]\<rparr>\<rparr>)) ''Login failed'' False)
     = ''Required, Must be an address; Too short''
   \<and> err_message (handleError (AxiosError ''Request failed with status code 422''
        (Some \<lparr>status = 422, data = Some \<lparr>data_message = Some ''Bad request'',
           data_errors = Some [(''otp'', MsgSingle ''Invalid code''),
                               (''phone'', MsgArray [''Bad phone''])]\<rparr>\<rparr>)) ''Phone login failed'' True)
     = ''Invalid code; Bad phone''"
proof -
  have u1: "(False \<and> firstFieldErrors [(''email'', MsgArray [''Required'', ''Must be an address'']),
                               (''password'', MsgSingle ''Too short'')] = None)
      \<or> (\<not> False \<and> \<not> truthy_opt (data_message \<lparr>data_message = None,
           data_errors = Some [(''email'', MsgArray [''Required'', ''Must be an address'']),
                               (''password'', MsgSingle ''Too short'')]\<rparr>))"
    by (simp add: truthy_opt_def)
  have u2: "(True \<and> firstFieldErrors [(''otp'', MsgSingle ''Invalid code''),
                               (''phone'', MsgArray [''Bad phone''])] = None)
      \<or> (\<not> True \<and> \<not> truthy_opt (data_message \<lparr>data_message = Some ''Bad request'',
           data_errors = Some [(''otp'', MsgSingle ''Invalid code''),
                               (''phone'', MsgArray [''Bad phone''])]\<rparr>))"
    by (simp add: firstFieldErrors_def)
  from handleError_field_errors [OF _ u1, of "''Request failed with status code 422''" 422
      "''Login failed''"]
    handleError_field_errors [OF _ u2, of "''Request failed with status code 422''" 422
      "''Phone login failed''"]
  show ?thesis
    by (simp add: msgs_def)
qed

text \<open>One field, one message, no top-level message, no preference: the code answers
  with the message alone, the text of the specification would carry the field name.\<close>

theorem handleError_field_errors_counterexample:
  "err_message (handleError (AxiosError ''Request failed with status code 422''
        (Some \<lparr>status = 422, data = Some \<lparr>data_message = None,
           data_errors = Some [(''email'', MsgArray [''Required''])]\<rparr>\<rparr>)) ''Login failed'' False)
      = ''Required''
   \<and> spec_fieldErrors [(''email'', MsgArray [''Required''])] = ''email: Required''
   \<and> err_message (handleError (AxiosError ''Request failed with status code 422''
        (Some \<lparr>status = 422, data = Some \<lparr>data_message = None,
           data_errors = Some [(''email'', MsgArray [''Required''])]\<rparr>\<rparr>)) ''Login failed'' False)
      \<noteq> spec_fieldErrors [(''email'', MsgArray [''Required''])]"
  by (simp add: err_message_structured errorMessage_step1_def errorMessage_step2_def
        firstFieldErrors_def truthy_opt_def truthy_def fieldErrors_def msgs_def spec_fieldErrors_def)

section \<open>One request through the transport\<close>

lemma send_Inr:
  "transport (request_interceptor c r) = Inr x \<Longrightarrow>
   send transport r c = (Inr x, emit (Sent (request_interceptor c r)) c)"
  by (simp add: send_def)

lemma send_Inl:
  "transport (request_interceptor c r) = Inl e \<Longrightarrow>
   send transport r c =
     (Inl (fst (response_interceptor e (emit (Sent (request_interceptor c r)) c))),
      snd (response_interceptor e (emit (Sent (request_interceptor c r)) c)))"
  by (simp add: send_def split: prod.split)

lemma send_cases:
  obtains (ok) x where "transport (request_interceptor c r) = Inr x"
      "send transport r c = (Inr x, emit (Sent (request_interceptor c r)) c)"
    | (fail) e where "transport (request_interceptor c r) = Inl e"
      "send transport r c =
        (Inl (fst (response_interceptor e (emit (Sent (request_interceptor c r)) c))),
         snd (response_interceptor e (emit (Sent (request_interceptor c r)) c)))"
  by (cases "transport (request_interceptor c r)") (auto simp: send_Inr send_Inl)

text \<open>The response interceptor touches neither the token nor the cache.\<close>

lemma response_interceptor_frame:
  "token (snd (response_interceptor e c)) = token c"
  "tokenCache (snd (response_interceptor e c)) = tokenCache c"
  "config (snd (response_interceptor e c)) = config c"
  by (simp_all add: response_interceptor_def emit_def split: option.split)

lemma refresh_calls_append: "refresh_calls (xs @ ys) = refresh_calls xs @ refresh_calls ys"
  by (induction xs rule: refresh_calls.induct) simp_all

lemma response_interceptor_refresh_calls:
  "refresh_calls (events (snd (response_interceptor e c))) = refresh_calls (events c)"
  by (simp add: response_interceptor_def emit_def refresh_calls_append split: option.split)

section \<open>Login\<close>

lemma response_interceptor_returns:
  "(error_status e = Some 401 \<longrightarrow>
      (case onAuthError (config c) of
         None \<Rightarrow> True
       | Some callback \<Rightarrow> callback (new_Error ''Authentication failed'') = None)) \<Longrightarrow>
   fst (response_interceptor e c) = e"
  by (auto simp: response_interceptor_def split: option.split)

text \<open>On a body of the declared type the reconciler does not throw and returns what
  \<open>extractPermissionsFromLoginResponse\<close> returns.\<close>

lemma for_received_roles_typed:
  "for_received_roles (map received_role_of rs) s = Inr (for_roles rs s)"
  by (induction rs arbitrary: s) (simp_all add: received_role_of_def split: option.split)

lemma extractPermissions_received_typed:
  "extractPermissionsFromLoginResponse_received (received_login_of l)
     = Inr (extractPermissionsFromLoginResponse l)"
proof (cases "lr_permissions l")
  case None
  then show ?thesis
    by (cases "lr_user l")
       (simp_all add: extractPermissionsFromLoginResponse_received_def
          extractPermissionsFromLoginResponse_def received_login_of_def received_user_of_def
          received_roles_of_def roles_of_def for_received_roles_typed Let_def
          split: option.split)
next
  case (Some ps)
  then show ?thesis
    by (cases "lr_user l")
       (simp_all add: extractPermissionsFromLoginResponse_received_def
          extractPermissionsFromLoginResponse_def received_login_of_def received_user_of_def
          received_roles_of_def roles_of_def for_received_roles_typed Let_def
          split: option.split)
qed

text \<open>When the remote call fails, \<^verbatim>\<open>login\<close> rejects and the current token is what it
  was: \<^verbatim>\<open>setToken\<close> is not reached.\<close>

lemma login_remote_failure_keeps_token:
  assumes "transport (request_interceptor c
        \<lparr>req_method = ''POST'', req_url = ''/auth/login'',
         req_body = LoginBody credentials, req_authorization = None\<rparr>) = Inl error"
  shows "\<exists>e'. fst (login transport credentials c) = Inl e'"
    and "getToken (snd (login transport credentials c)) = getToken c"
  using assms
  by (simp_all add: login_def send_Inl getToken_def response_interceptor_frame emit_def)

text \<open>On a body of the declared type, \<^verbatim>\<open>login\<close> resolves and the token is the new
  one.\<close>

lemma login_typed_answer_resolves:
  assumes "transport (request_interceptor c
        \<lparr>req_method = ''POST'', req_url = ''/auth/login'',
         req_body = LoginBody credentials, req_authorization = None\<rparr>)
      = Inr (received_login_of l)"
  shows "fst (login transport credentials c)
      = Inr ((received_login_of l)
            \<lparr>rl_permissions := Some (JsArray (extractPermissionsFromLoginResponse l))\<rparr>)"
    and "getToken (snd (login transport credentials c)) = Some (lr_access_token l)"
proof -
  have tok: "rl_access_token (received_login_of l) = lr_access_token l"
    by (simp add: received_login_of_def)
  show "fst (login transport credentials c)
      = Inr ((received_login_of l)
            \<lparr>rl_permissions := Some (JsArray (extractPermissionsFromLoginResponse l))\<rparr>)"
    using assms by (simp add: login_def send_Inr extractPermissions_received_typed)
  show "getToken (snd (login transport credentials c)) = Some (lr_access_token l)"
    using assms
    by (simp add: login_def send_Inr extractPermissions_received_typed getToken_def
          setToken_def emit_def tok)
qed

text \<open>
  C5. Whenever \<^verbatim>\<open>login\<close> rejects, \<^verbatim>\<open>getToken()\<close> afterwards should return what it
  returned before the call. The source does not keep to that: it calls \<^verbatim>\<open>setToken\<close>
  before the reconciler, inside the same \<^verbatim>\<open>try\<close> block. Here the client holds the
  token T0 and the service answers 200 with the token T1 and a user whose \<^verbatim>\<open>roles\<close>
  is an object instead of an array: the token T1 is stored, the reconciler throws,
  \<^verbatim>\<open>login\<close> rejects with the normalized error, and \<^verbatim>\<open>getToken()\<close> returns T1.
\<close>

theorem login_rejects_with_new_token:
  "fst (login
          (\<lambda>r. Inr \<lparr>rl_access_token = ''T1'', rl_token_type = ''Bearer'', rl_expires_in = 3600,
             rl_user = Some \<lparr>ru_id = IdNumber 1, ru_name = ''u'', ru_email = ''a@b.com'',
                ru_roles = Some (NotIterable ''response.user.roles is not iterable'')\<rparr>,
             rl_permissions = None\<rparr>)
          \<lparr>cred_email = ''a@b.com'', cred_password = ''x''\<rparr>
          \<lparr>config = \<lparr>onTokenRefresh = None, onAuthError = None\<rparr>, token = Some ''T0'',
           tokenCache = Map.empty, events = []\<rparr>)
     = Inl (new_Error ''Login failed: response.user.roles is not iterable'')
   \<and> getToken
        \<lparr>config = \<lparr>onTokenRefresh = None, onAuthError = None\<rparr>, token = Some ''T0'',
         tokenCache = Map.empty, events = []\<rparr>
     = Some ''T0''
   \<and> getToken (snd (login
          (\<lambda>r. Inr \<lparr>rl_access_token = ''T1'', rl_token_type = ''Bearer'', rl_expires_in = 3600,
             rl_user = Some \<lparr>ru_id = IdNumber 1, ru_name = ''u'', ru_email = ''a@b.com'',
                ru_roles = Some (NotIterable ''response.user.roles is not iterable'')\<rparr>,
             rl_permissions = None\<rparr>)
          \<lparr>cred_email = ''a@b.com'', cred_password = ''x''\<rparr>
          \<lparr>config = \<lparr>onTokenRefresh = None, onAuthError = None\<rparr>, token = Some ''T0'',
           tokenCache = Map.empty, events = []\<rparr>))
     = Some ''T1''"
  by (simp add: login_def send_def request_interceptor_def truthy_opt_def truthy_def emit_def
        extractPermissionsFromLoginResponse_received_def received_roles_of_def new_Set_def
        handleError_def new_Error_def getToken_def setToken_def)

text \<open>
  C6, as the code has it. \<^verbatim>\<open>login\<close> calls the normalizer with the fallback text
  Login failed and without the third argument, so the preference is off: every error
  \<^verbatim>\<open>login\<close> raises is built by the normalizer with the preference disabled. When the
  request fails with a structured body whose top-level message is not empty and is not
  the fallback text, and the authentication-error callback (called on status 401 when
  configured) returns normally, the error's message is that top-level message, whether
  or not the body has a field-error map.
\<close>

theorem login_failure_top_level_message:
  "(fst (login transport credentials c) = Inl err
      \<longrightarrow> (\<exists>e'. err = handleError e' ''Login failed'' False))
   \<and> (transport (request_interceptor c
          \<lparr>req_method = ''POST'', req_url = ''/auth/login'',
           req_body = LoginBody credentials, req_authorization = None\<rparr>)
        = Inl (AxiosError am (Some \<lparr>status = s, data = Some b\<rparr>))
      \<and> (s = 401 \<longrightarrow>
           (case onAuthError (config c) of
              None \<Rightarrow> True
            | Some callback \<Rightarrow> callback (new_Error ''Authentication failed'') = None))
      \<and> data_message b = Some t \<and> t \<noteq> [] \<and> t \<noteq> ''Login failed''
      \<longrightarrow> fst (login transport credentials c)
           = Inl (handleError (AxiosError am (Some \<lparr>status = s, data = Some b\<rparr>))
                    ''Login failed'' False)
         \<and> err_message (handleError (AxiosError am (Some \<lparr>status = s, data = Some b\<rparr>))
               ''Login failed'' False) = t)"
proof (intro conjI impI; (elim conjE)?)
  let ?e = "AxiosError am (Some \<lparr>status = s, data = Some b\<rparr>)"
  let ?r = "\<lparr>req_method = ''POST'', req_url = ''/auth/login'',
              req_body = LoginBody credentials, req_authorization = None\<rparr>"
  {
    assume rej: "fst (login transport credentials c) = Inl err"
    show "\<exists>e'. err = handleError e' ''Login failed'' False"
    proof (cases rule: send_cases [of transport c ?r])
      case (ok x)
      with rej show ?thesis
        by (cases "extractPermissionsFromLoginResponse_received x") (auto simp: login_def)
    next
      case (fail e)
      with rej show ?thesis by (auto simp: login_def)
    qed
  }
  {
    assume f: "transport (request_interceptor c ?r) = Inl ?e"
      and cb: "s = 401 \<longrightarrow>
           (case onAuthError (config c) of
              None \<Rightarrow> True
            | Some callback \<Rightarrow> callback (new_Error ''Authentication failed'') = None)"
      and m: "data_message b = Some t" "t \<noteq> []" "t \<noteq> ''Login failed''"
    have same: "fst (response_interceptor ?e (emit (Sent (request_interceptor c ?r)) c)) = ?e"
      using cb by (intro response_interceptor_returns) (simp add: error_status_def emit_def)
    show "fst (login transport credentials c) = Inl (handleError ?e ''Login failed'' False)"
      using f same by (simp add: login_def send_Inl)
    show "err_message (handleError ?e ''Login failed'' False) = t"
      using m
      by (simp add: handleError_def response_data_def errorMessage_step1_def
            errorMessage_step2_def truthy_opt_def truthy_def)
  }
qed

text \<open>A failed login answered with status 401 on a client whose authentication-error
  callback is configured; the body has a field-error map and a top-level message.\<close>

theorem login_failure_top_level_message_witness:
  "fst (login
          (\<lambda>r. Inl (AxiosError ''Request failed with status code 401''
             (Some \<lparr>status = 401, data = Some
                \<lparr>data_message = Some ''Invalid credentials'',
                 data_errors = Some [(''email'', MsgArray [''No such account''])]\<rparr>\<rparr>)))
          \<lparr>cred_email = ''a@b.com'', cred_password = ''x''\<rparr>
          \<lparr>config = \<lparr>onTokenRefresh = None, onAuthError = Some (\<lambda>e. None)\<rparr>, token = None,
           tokenCache = Map.empty, events = []\<rparr>)
     = Inl \<lparr>err_message = ''Invalid credentials'',
            err_data = Some \<lparr>data_message = Some ''Invalid credentials'',
                 data_errors = Some [(''email'', MsgArray [''No such account''])]\<rparr>,
            err_statusCode = Some 401\<rparr>
   \<and> (\<exists>e'. \<lparr>err_message = ''Invalid credentials'',
            err_data = Some \<lparr>data_message = Some ''Invalid credentials'',
                 data_errors = Some [(''email'', MsgArray [''No such account''])]\<rparr>,
            err_statusCode = Some 401\<rparr> = handleError e' ''Login failed'' False)"
proof -
  define b where "b = \<lparr>data_message = Some ''Invalid credentials'',
                 data_errors = Some [(''email'', MsgArray [''No such account''])]\<rparr>"
  define tr where "tr = (\<lambda>r::request. Inl (AxiosError ''Request failed with status code 401''
             (Some \<lparr>status = 401, data = Some b\<rparr>)) :: thrown + received_login)"
  define c where "c =
          \<lparr>config = \<lparr>onTokenRefresh = None, onAuthError = Some (\<lambda>e. None :: thrown option)\<rparr>,
           token = None, tokenCache = Map.empty, events = []\<rparr>"
  define cr where "cr = \<lparr>cred_email = ''a@b.com'', cred_password = ''x''\<rparr>"
  note t = login_failure_top_level_message
      [where transport = tr and c = c and credentials = cr
         and am = "''Request failed with status code 401''" and s = 401 and b = b
         and t = "''Invalid credentials''"
         and err = "handleError (AxiosError ''Request failed with status code 401''
             (Some \<lparr>status = 401, data = Some b\<rparr>)) ''Login failed'' False"]
  have h: "tr (request_interceptor c
          \<lparr>req_method = ''POST'', req_url = ''/auth/login'',
           req_body = LoginBody cr, req_authorization = None\<rparr>)
        = Inl (AxiosError ''Request failed with status code 401''
             (Some \<lparr>status = 401, data = Some b\<rparr>))
      \<and> ((401::int) = 401 \<longrightarrow>
           (case onAuthError (config c) of
              None \<Rightarrow> True
            | Some callback \<Rightarrow> callback (new_Error ''Authentication failed'') = None))
      \<and> data_message b = Some ''Invalid credentials'' \<and> ''Invalid credentials'' \<noteq> []
      \<and> ''Invalid credentials'' \<noteq> ''Login failed''"
    by (simp add: tr_def c_def b_def)
  from t h
  have r: "fst (login tr cr c)
           = Inl (handleError (AxiosError ''Request failed with status code 401''
               (Some \<lparr>status = 401, data = Some b\<rparr>)) ''Login failed'' False)"
    and m: "err_message (handleError (AxiosError ''Request failed with status code 401''
               (Some \<lparr>status = 401, data = Some b\<rparr>)) ''Login failed'' False)
           = ''Invalid credentials''"
    by blast+
  from t r
  have ex: "\<exists>e'. handleError (AxiosError ''Request failed with status code 401''
               (Some \<lparr>status = 401, data = Some b\<rparr>)) ''Login failed'' False
           = handleError e' ''Login failed'' False"
    by blast
  have v: "handleError (AxiosError ''Request failed with status code 401''
               (Some \<lparr>status = 401, data = Some b\<rparr>)) ''Login failed'' False
      = \<lparr>err_message = ''Invalid credentials'', err_data = Some b, err_statusCode = Some 401\<rparr>"
    using m by (simp add: handleError_def response_data_def)
  from r ex show ?thesis
    unfolding v by (simp only: tr_def c_def cr_def b_def)
qed

text \<open>Why the callback must return: what it throws replaces the error of the request, and
  the normalizer then sees no response body.\<close>

lemma login_failure_callback_throws:
  "fst (login
          (\<lambda>r. Inl (AxiosError ''Request failed with status code 401''
             (Some \<lparr>status = 401, data = Some
                \<lparr>data_message = Some ''Invalid credentials'', data_errors = None\<rparr>\<rparr>)))
          \<lparr>cred_email = ''a@b.com'', cred_password = ''x''\<rparr>
          \<lparr>config = \<lparr>onTokenRefresh = None,
                     onAuthError = Some (\<lambda>e. Some (OtherError (Some ''redirect failed'')))\<rparr>,
           token = None, tokenCache = Map.empty, events = []\<rparr>)
     = Inl (new_Error ''Login failed: redirect failed'')"
  by (simp add: login_def send_def response_interceptor_def error_status_def
        request_interceptor_def truthy_opt_def truthy_def emit_def handleError_def)

text \<open>
  A failed login whose response body has a field-error map and a top-level message: the
  error carries the top-level message, where the normalizer with the preference enabled
  would have given the first field's first message.
\<close>

theorem login_failure_detailed_counterexample:
  "fst (login
          (\<lambda>r. Inl (AxiosError ''Request failed with status code 422''
             (Some \<lparr>status = 422, data = Some
                \<lparr>data_message = Some ''The given data was invalid.'',
                 data_errors = Some [(''email'', MsgArray [''The email field is required.''])]\<rparr>\<rparr>)))
          \<lparr>cred_email = '''', cred_password = ''x''\<rparr>
          \<lparr>config = \<lparr>onTokenRefresh = None, onAuthError = None\<rparr>, token = None,
           tokenCache = Map.empty, events = []\<rparr>)
     = Inl \<lparr>err_message = ''The given data was invalid.'',
            err_data = Some \<lparr>data_message = Some ''The given data was invalid.'',
                 data_errors = Some [(''email'', MsgArray [''The email field is required.''])]\<rparr>,
            err_statusCode = Some 422\<rparr>
   \<and> err_message (handleError (AxiosError ''Request failed with status code 422''
             (Some \<lparr>status = 422, data = Some
                \<lparr>data_message = Some ''The given data was invalid.'',
                 data_errors = Some [(''email'', MsgArray [''The email field is required.''])]\<rparr>\<rparr>))
          ''Login failed'' True)
     = ''The email field is required.''"
  by (simp add: login_def send_def response_interceptor_def error_status_def
        request_interceptor_def truthy_opt_def truthy_def emit_def
        handleError_def response_data_def errorMessage_step1_def errorMessage_step2_def
        firstFieldErrors_def fieldErrors_def msgs_def)

section \<open>Authorization checks\<close>

lemma hasPermission_resolves: "\<exists>b. fst (hasPermission transport permission tok c) = Inr b"
  by (cases rule: send_cases [of transport c
        "\<lparr>req_method = ''POST'', req_url = ''/auth/check-permission'',
          req_body = PermissionBody permission, req_authorization = headers tok\<rparr>"])
     (auto simp: hasPermission_def)

lemma hasRole_resolves: "\<exists>b. fst (hasRole transport role tok c) = Inr b"
  by (cases rule: send_cases [of transport c
        "\<lparr>req_method = ''POST'', req_url = ''/auth/check-role'',
          req_body = RoleBody role, req_authorization = headers tok\<rparr>"])
     (auto simp: hasRole_def)

text \<open>
  C7. \<^verbatim>\<open>hasPermission\<close> and \<^verbatim>\<open>hasRole\<close> never reject: they resolve to a boolean
  for every permission or role name, token argument, client state and behaviour of the
  remote service. When the check request rejects, with any error at all, they resolve to
  false.
\<close>

theorem checks_fail_closed:
  "(\<exists>b. fst (hasPermission ptransport permission tok c) = Inr b)
   \<and> (\<exists>b. fst (hasRole rtransport role tok c) = Inr b)
   \<and> (ptransport (request_interceptor c
          \<lparr>req_method = ''POST'', req_url = ''/auth/check-permission'',
           req_body = PermissionBody permission, req_authorization = headers tok\<rparr>) = Inl perror
        \<longrightarrow> fst (hasPermission ptransport permission tok c) = Inr False)
   \<and> (rtransport (request_interceptor c
          \<lparr>req_method = ''POST'', req_url = ''/auth/check-role'',
           req_body = RoleBody role, req_authorization = headers tok\<rparr>) = Inl rerror
        \<longrightarrow> fst (hasRole rtransport role tok c) = Inr False)"
proof (intro conjI impI)
  let ?p = "\<lparr>req_method = ''POST'', req_url = ''/auth/check-permission'',
           req_body = PermissionBody permission, req_authorization = headers tok\<rparr>"
  let ?r = "\<lparr>req_method = ''POST'', req_url = ''/auth/check-role'',
           req_body = RoleBody role, req_authorization = headers tok\<rparr>"
  show "\<exists>b. fst (hasPermission ptransport permission tok c) = Inr b"
    by (rule hasPermission_resolves)
  show "\<exists>b. fst (hasRole rtransport role tok c) = Inr b"
    by (rule hasRole_resolves)
  show "fst (hasPermission ptransport permission tok c) = Inr False"
    if "ptransport (request_interceptor c ?p) = Inl perror"
    using that by (simp add: hasPermission_def send_Inl)
  show "fst (hasRole rtransport role tok c) = Inr False"
    if "rtransport (request_interceptor c ?r) = Inl rerror"
    using that by (simp add: hasRole_def send_Inl)
qed

text \<open>A network failure for the permission check, a 403 answer for the role check.\<close>

theorem checks_fail_closed_witness:
  "fst (hasPermission (\<lambda>r. Inl (AxiosError ''Network Error'' None)) ''forms.create'' (Some ''T0'')
          \<lparr>config = \<lparr>onTokenRefresh = None, onAuthError = None\<rparr>, token = None,
           tokenCache = Map.empty, events = []\<rparr>) = Inr False
   \<and> fst (hasRole (\<lambda>r. Inl (AxiosError ''Request failed with status code 403''
                      (Some \<lparr>status = 403, data = None\<rparr>))) ''admin'' None
          \<lparr>config = \<lparr>onTokenRefresh = None, onAuthError = None\<rparr>, token = Some ''T0'',
           tokenCache = Map.empty, events = []\<rparr>) = Inr False"
  using checks_fail_closed
      [where ptransport = "\<lambda>r. Inl (AxiosError ''Network Error'' None)"
         and permission = "''forms.create''" and tok = "Some ''T0''"
         and c = "\<lparr>config = \<lparr>onTokenRefresh = None, onAuthError = None\<rparr>, token = None,
           tokenCache = Map.empty, events = []\<rparr>"
         and perror = "AxiosError ''Network Error'' None"
         and rtransport = "\<lambda>r. Inl (OtherError None)" and rerror = "OtherError None"]
    checks_fail_closed
      [where rtransport = "\<lambda>r. Inl (AxiosError ''Request failed with status code 403''
                      (Some \<lparr>status = 403, data = None\<rparr>))"
         and role = "''admin''" and tok = None
         and c = "\<lparr>config = \<lparr>onTokenRefresh = None, onAuthError = None\<rparr>, token = Some ''T0'',
           tokenCache = Map.empty, events = []\<rparr>"
         and rerror = "AxiosError ''Request failed with status code 403''
                      (Some \<lparr>status = 403, data = None\<rparr>)"
         and ptransport = "\<lambda>r. Inl (OtherError None)" and perror = "OtherError None"]
  by simp

section \<open>Logout\<close>

text \<open>
  C8. \<^verbatim>\<open>logout\<close> never rejects and leaves the client with no current token and an
  empty verification cache, whatever the remote call did. \<^verbatim>\<open>logoutAll\<close>, when its
  remote call fails, rejects with a normalized error (fallback text Logout all failed)
  and leaves the current token and the cache as they were: the cleanup is not performed
  on that path.
\<close>

theorem logout_clears_logoutAll_propagates:
  "fst (logout transport tok c) = Inr ()
   \<and> getToken (snd (logout transport tok c)) = None
   \<and> tokenCache (snd (logout transport tok c)) = Map.empty
   \<and> (transport (request_interceptor c
          \<lparr>req_method = ''POST'', req_url = ''/auth/logout-all'',
           req_body = EmptyObject, req_authorization = headers tok\<rparr>) = Inl error
        \<longrightarrow> (\<exists>e. fst (logoutAll transport tok c) = Inl (handleError e ''Logout all failed'' False))
          \<and> getToken (snd (logoutAll transport tok c)) = getToken c
          \<and> tokenCache (snd (logoutAll transport tok c)) = tokenCache c)"
proof (intro conjI impI)
  let ?o = "\<lparr>req_method = ''POST'', req_url = ''/auth/logout'',
           req_body = EmptyObject, req_authorization = headers tok\<rparr>"
  let ?a = "\<lparr>req_method = ''POST'', req_url = ''/auth/logout-all'',
           req_body = EmptyObject, req_authorization = headers tok\<rparr>"
  show "fst (logout transport tok c) = Inr ()"
    by (cases rule: send_cases [of transport c ?o]) (simp_all add: logout_def)
  show "getToken (snd (logout transport tok c)) = None"
    by (cases rule: send_cases [of transport c ?o])
       (simp_all add: logout_def getToken_def clearToken_def clearTokenCache_def)
  show "tokenCache (snd (logout transport tok c)) = Map.empty"
    by (cases rule: send_cases [of transport c ?o])
       (simp_all add: logout_def clearToken_def clearTokenCache_def)
  assume f: "transport (request_interceptor c ?a) = Inl error"
  show "\<exists>e. fst (logoutAll transport tok c) = Inl (handleError e ''Logout all failed'' False)"
    using f by (auto simp: logoutAll_def send_Inl)
  show "getToken (snd (logoutAll transport tok c)) = getToken c"
    using f
    by (simp add: logoutAll_def send_Inl getToken_def response_interceptor_frame emit_def)
  show "tokenCache (snd (logoutAll transport tok c)) = tokenCache c"
    using f
    by (simp add: logoutAll_def send_Inl response_interceptor_frame emit_def)
qed

text \<open>The service is unreachable; the client holds the token T0 and one cache entry.
  After \<^verbatim>\<open>logoutAll\<close> both are still there.\<close>

theorem logout_clears_logoutAll_propagates_witness:
  "getToken (snd (logoutAll (\<lambda>r. Inl (AxiosError ''Network Error'' None)) None
          \<lparr>config = \<lparr>onTokenRefresh = None, onAuthError = None\<rparr>, token = Some ''T0'',
           tokenCache = [''token_T0'' \<mapsto> \<lparr>cached_data =
               \<lparr>tv_user = None, tv_permissions = Some [], tv_roles = []\<rparr>, timestamp = 5\<rparr>],
           events = []\<rparr>)) = Some ''T0''
   \<and> tokenCache (snd (logoutAll (\<lambda>r. Inl (AxiosError ''Network Error'' None)) None
          \<lparr>config = \<lparr>onTokenRefresh = None, onAuthError = None\<rparr>, token = Some ''T0'',
           tokenCache = [''token_T0'' \<mapsto> \<lparr>cached_data =
               \<lparr>tv_user = None, tv_permissions = Some [], tv_roles = []\<rparr>, timestamp = 5\<rparr>],
           events = []\<rparr>)) ''token_T0''
      = Some \<lparr>cached_data = \<lparr>tv_user = None, tv_permissions = Some [], tv_roles = []\<rparr>,
              timestamp = 5\<rparr>
   \<and> getToken (snd (logout (\<lambda>r. Inl (AxiosError ''Network Error'' None)) None
          \<lparr>config = \<lparr>onTokenRefresh = None, onAuthError = None\<rparr>, token = Some ''T0'',
           tokenCache = [''token_T0'' \<mapsto> \<lparr>cached_data =
               \<lparr>tv_user = None, tv_permissions = Some [], tv_roles = []\<rparr>, timestamp = 5\<rparr>],
           events = []\<rparr>)) = None"
  using logout_clears_logoutAll_propagates
      [where transport = "\<lambda>r. Inl (AxiosError ''Network Error'' None)" and tok = None
         and c = "\<lparr>config = \<lparr>onTokenRefresh = None, onAuthError = None\<rparr>, token = Some ''T0'',
           tokenCache = [''token_T0'' \<mapsto> \<lparr>cached_data =
               \<lparr>tv_user = None, tv_permissions = Some [], tv_roles = []\<rparr>, timestamp = 5\<rparr>],
           events = []\<rparr>"
         and error = "AxiosError ''Network Error'' None"]
  by (simp add: getToken_def)

section \<open>Refresh\<close>

text \<open>
  C10. When the refresh request resolves with a response whose \<^verbatim>\<open>access_token\<close> is
  absent or the empty string, \<^verbatim>\<open>refreshToken\<close> resolves with that response, the
  current token is what it was and \<^verbatim>\<open>onTokenRefresh\<close> is not called. When the
  response carries a non-empty \<^verbatim>\<open>access_token\<close>, that token becomes the current one
  and the callback, when configured, is called once with it. When the request rejects,
  the token is kept and the callback is not called either.
\<close>

theorem refreshToken_needs_access_token:
  "(transport (request_interceptor c
        \<lparr>req_method = ''POST'', req_url = ''/auth/refresh'',
         req_body = EmptyObject, req_authorization = headers tok\<rparr>) = Inr response
      \<and> \<not> truthy_opt (rt_access_token response) \<longrightarrow>
        fst (refreshToken transport tok c) = Inr response
        \<and> getToken (snd (refreshToken transport tok c)) = getToken c
        \<and> refresh_calls (events (snd (refreshToken transport tok c))) = refresh_calls (events c))
   \<and> (transport (request_interceptor c
        \<lparr>req_method = ''POST'', req_url = ''/auth/refresh'',
         req_body = EmptyObject, req_authorization = headers tok\<rparr>) = Inr response
      \<and> truthy_opt (rt_access_token response) \<longrightarrow>
        getToken (snd (refreshToken transport tok c)) = rt_access_token response
        \<and> refresh_calls (events (snd (refreshToken transport tok c)))
            = refresh_calls (events c)
              @ (if onTokenRefresh (config c) = None then [] else [the (rt_access_token response)]))
   \<and> (transport (request_interceptor c
        \<lparr>req_method = ''POST'', req_url = ''/auth/refresh'',
         req_body = EmptyObject, req_authorization = headers tok\<rparr>) = Inl error \<longrightarrow>
        getToken (snd (refreshToken transport tok c)) = getToken c
        \<and> refresh_calls (events (snd (refreshToken transport tok c))) = refresh_calls (events c))"
proof (intro conjI impI; (elim conjE)?)
  let ?r = "\<lparr>req_method = ''POST'', req_url = ''/auth/refresh'',
         req_body = EmptyObject, req_authorization = headers tok\<rparr>"
  {
    assume ok: "transport (request_interceptor c ?r) = Inr response"
      and no: "\<not> truthy_opt (rt_access_token response)"
    then have *: "refreshToken transport tok c
        = (Inr response, emit (Sent (request_interceptor c ?r)) c)"
      by (simp add: refreshToken_def send_Inr)
    show "fst (refreshToken transport tok c) = Inr response" using * by simp
    show "getToken (snd (refreshToken transport tok c)) = getToken c"
      using * by (simp add: getToken_def emit_def)
    show "refresh_calls (events (snd (refreshToken transport tok c))) = refresh_calls (events c)"
      using * by (simp add: emit_def refresh_calls_append)
  }
  {
    assume ok: "transport (request_interceptor c ?r) = Inr response"
      and yes: "truthy_opt (rt_access_token response)"
    then obtain t where t: "rt_access_token response = Some t"
      by (cases "rt_access_token response") (auto simp: truthy_opt_def)
    show "getToken (snd (refreshToken transport tok c)) = rt_access_token response"
      using ok yes t
      by (simp add: refreshToken_def send_Inr getToken_def setToken_def emit_def
            split: option.split)
    show "refresh_calls (events (snd (refreshToken transport tok c)))
            = refresh_calls (events c)
              @ (if onTokenRefresh (config c) = None then [] else [the (rt_access_token response)])"
      using ok yes t
      by (auto simp: refreshToken_def send_Inr setToken_def emit_def refresh_calls_append
            split: option.split)
  }
  {
    assume f: "transport (request_interceptor c ?r) = Inl error"
    show "getToken (snd (refreshToken transport tok c)) = getToken c"
      using f
      by (simp add: refreshToken_def send_Inl getToken_def response_interceptor_frame emit_def)
    show "refresh_calls (events (snd (refreshToken transport tok c))) = refresh_calls (events c)"
      using f
      by (simp add: refreshToken_def send_Inl response_interceptor_refresh_calls
            emit_def refresh_calls_append)
  }
qed

text \<open>A client holding T0 with a callback configured: an answer with the empty string
  as token, an answer with the token T1, and an unreachable service.\<close>

theorem refreshToken_needs_access_token_witness:
  "refreshToken
      (\<lambda>r. Inr \<lparr>rt_access_token = Some '''', rt_token_type = ''Bearer'', rt_expires_in = 3600\<rparr>)
      None
      \<lparr>config = \<lparr>onTokenRefresh = Some (\<lambda>t. None), onAuthError = None\<rparr>, token = Some ''T0'',
       tokenCache = Map.empty, events = []\<rparr>
     = (Inr \<lparr>rt_access_token = Some '''', rt_token_type = ''Bearer'', rt_expires_in = 3600\<rparr>,
        \<lparr>config = \<lparr>onTokenRefresh = Some (\<lambda>t. None), onAuthError = None\<rparr>, token = Some ''T0'',
         tokenCache = Map.empty,
         events = [Sent \<lparr>req_method = ''POST'', req_url = ''/auth/refresh'',
           req_body = EmptyObject, req_authorization = Some ''Bearer T0''\<rparr>]\<rparr>)
   \<and> getToken (snd (refreshToken
      (\<lambda>r. Inr \<lparr>rt_access_token = Some ''T1'', rt_token_type = ''Bearer'', rt_expires_in = 3600\<rparr>)
      None
      \<lparr>config = \<lparr>onTokenRefresh = Some (\<lambda>t. None), onAuthError = None\<rparr>, token = Some ''T0'',
       tokenCache = Map.empty, events = []\<rparr>)) = Some ''T1''
   \<and> refresh_calls (events (snd (refreshToken
      (\<lambda>r. Inr \<lparr>rt_access_token = Some ''T1'', rt_token_type = ''Bearer'', rt_expires_in = 3600\<rparr>)
      None
      \<lparr>config = \<lparr>onTokenRefresh = Some (\<lambda>t. None), onAuthError = None\<rparr>, token = Some ''T0'',
       tokenCache = Map.empty, events = []\<rparr>))) = [''T1'']
   \<and> getToken (snd (refreshToken (\<lambda>r. Inl (AxiosError ''Network Error'' None)) None
      \<lparr>config = \<lparr>onTokenRefresh = Some (\<lambda>t. None), onAuthError = None\<rparr>, token = Some ''T0'',
       tokenCache = Map.empty, events = []\<rparr>)) = Some ''T0''"
proof -
  define c where "c =
      \<lparr>config = \<lparr>onTokenRefresh = Some (\<lambda>t. None :: thrown option), onAuthError = None\<rparr>,
       token = Some ''T0'', tokenCache = Map.empty, events = []\<rparr>"
  define r0 where "r0 =
      \<lparr>rt_access_token = Some '''', rt_token_type = ''Bearer'', rt_expires_in = 3600\<rparr>"
  define r1 where "r1 =
      \<lparr>rt_access_token = Some ''T1'', rt_token_type = ''Bearer'', rt_expires_in = 3600\<rparr>"
  have h0: "\<not> truthy_opt (rt_access_token r0)" and h1: "truthy_opt (rt_access_token r1)"
    by (simp_all add: r0_def r1_def truthy_opt_def truthy_def)
  from refreshToken_needs_access_token
      [where transport = "\<lambda>r. Inr r0" and c = c and tok = None and response = r0] h0
  have a: "fst (refreshToken (\<lambda>r. Inr r0) None c) = Inr r0
      \<and> getToken (snd (refreshToken (\<lambda>r. Inr r0) None c)) = getToken c"
    by simp
  have a': "snd (refreshToken (\<lambda>r. Inr r0) None c)
      = c\<lparr>events := [Sent \<lparr>req_method = ''POST'', req_url = ''/auth/refresh'',
           req_body = EmptyObject, req_authorization = Some ''Bearer T0''\<rparr>]\<rparr>"
    using h0
    by (simp add: refreshToken_def send_def request_interceptor_def emit_def headers_def
          truthy_opt_def truthy_def c_def)
  from refreshToken_needs_access_token
      [where transport = "\<lambda>r. Inr r1" and c = c and tok = None and response = r1] h1
  have b: "getToken (snd (refreshToken (\<lambda>r. Inr r1) None c)) = Some ''T1''
      \<and> refresh_calls (events (snd (refreshToken (\<lambda>r. Inr r1) None c))) = [''T1'']"
    by (simp add: c_def r1_def)
  from refreshToken_needs_access_token
      [where transport = "\<lambda>r. Inl (AxiosError ''Network Error'' None)" and c = c and tok = None
         and error = "AxiosError ''Network Error'' None"]
  have d: "getToken (snd (refreshToken (\<lambda>r. Inl (AxiosError ''Network Error'' None)) None c))
      = Some ''T0''"
    by (simp add: c_def getToken_def)
  have "refreshToken (\<lambda>r. Inr r0) None c
      = (Inr r0, c\<lparr>events := [Sent \<lparr>req_method = ''POST'', req_url = ''/auth/refresh'',
           req_body = EmptyObject, req_authorization = Some ''Bearer T0''\<rparr>]\<rparr>)"
    using a a' by (simp add: prod_eq_iff)
  with b d show ?thesis
    by (simp add: c_def r0_def r1_def)
qed

section \<open>The verification cache\<close>

text \<open>
  C1. Let T be the token a call of \<^verbatim>\<open>verifyToken\<close> is about (the argument, or the
  current token when the argument is absent or empty), and let the cache hold for T a
  result stored at time t0. A call that reads the clock at t1 with t1 - t0 < 60000
  returns the cached result and leaves the client as it is, so no request is sent. A
  call with t1 - t0 \<ge> 60000 sends the verification request; when the service answers,
  the call returns the answer with its permissions reconciled, and that value, stamped
  with the time of storing, is the cache entry of T when the call returns.
\<close>

theorem verifyToken_cache_ttl:
  assumes "or_else tok (token c) = Some T" and "T \<noteq> []"
    and "tokenCache c (cacheKey T) = Some \<lparr>cached_data = d, timestamp = t0\<rparr>"
  shows "(t1 - t0 < 60000 \<longrightarrow> verifyToken transport t1 t2 tok c = (Inr d, c))
    \<and> (t1 - t0 \<ge> 60000 \<longrightarrow>
         (\<exists>rest. events (snd (verifyToken transport t1 t2 tok c))
            = events c @ Sent (request_interceptor c
                \<lparr>req_method = ''GET'', req_url = ''/auth/me'', req_body = NoBody,
                 req_authorization = Some (''Bearer '' @ T)\<rparr>) # rest)
         \<and> (\<forall>r. transport (request_interceptor c
                \<lparr>req_method = ''GET'', req_url = ''/auth/me'', req_body = NoBody,
                 req_authorization = Some (''Bearer '' @ T)\<rparr>) = Inr r \<longrightarrow>
               fst (verifyToken transport t1 t2 tok c) = Inr (enrichPermissionsFromRoles r)
               \<and> tokenCache (snd (verifyToken transport t1 t2 tok c)) (cacheKey T)
                  = Some \<lparr>cached_data = enrichPermissionsFromRoles r, timestamp = t2\<rparr>))"
proof (intro conjI impI allI)
  let ?r = "\<lparr>req_method = ''GET'', req_url = ''/auth/me'', req_body = NoBody,
                 req_authorization = Some (''Bearer '' @ T)\<rparr>"
  have tr: "truthy_opt (Some T)" using assms(2) by (simp add: truthy_opt_def truthy_def)
  show "verifyToken transport t1 t2 tok c = (Inr d, c)" if "t1 - t0 < 60000"
    using that assms tr by (simp add: verifyToken_def cacheDuration_def)
  assume old: "60000 \<le> t1 - t0"
  then have live: "verifyToken transport t1 t2 tok c = verify_live transport t2 T c"
    using assms tr by (simp add: verifyToken_def cacheDuration_def)
  show "\<exists>rest. events (snd (verifyToken transport t1 t2 tok c))
            = events c @ Sent (request_interceptor c ?r) # rest"
  proof (cases rule: send_cases [of transport c ?r])
    case (ok x)
    then show ?thesis by (simp add: live verify_live_def emit_def)
  next
    case (fail e)
    then show ?thesis
      by (auto simp: live verify_live_def emit_def response_interceptor_def split: option.split)
  qed
  fix r assume "transport (request_interceptor c ?r) = Inr r"
  then show "fst (verifyToken transport t1 t2 tok c) = Inr (enrichPermissionsFromRoles r)"
    and "tokenCache (snd (verifyToken transport t1 t2 tok c)) (cacheKey T)
                  = Some \<lparr>cached_data = enrichPermissionsFromRoles r, timestamp = t2\<rparr>"
    by (simp_all add: live verify_live_def send_Inr emit_def)
qed

text \<open>The entry of T1 was stored at time 1000. A read at 60999 is answered from the
  cache; a read at 61000 asks the service and stores its reconciled answer.\<close>

theorem verifyToken_cache_ttl_witness:
  "verifyToken (\<lambda>r. Inr \<lparr>tv_user = None, tv_permissions = None, tv_roles = []\<rparr>) 60999 61005 None
      \<lparr>config = \<lparr>onTokenRefresh = None, onAuthError = None\<rparr>, token = Some ''T1'',
       tokenCache = [''token_T1'' \<mapsto> \<lparr>cached_data =
           \<lparr>tv_user = None, tv_permissions = Some [''a''], tv_roles = []\<rparr>, timestamp = 1000\<rparr>],
       events = []\<rparr>
     = (Inr \<lparr>tv_user = None, tv_permissions = Some [''a''], tv_roles = []\<rparr>,
        \<lparr>config = \<lparr>onTokenRefresh = None, onAuthError = None\<rparr>, token = Some ''T1'',
         tokenCache = [''token_T1'' \<mapsto> \<lparr>cached_data =
             \<lparr>tv_user = None, tv_permissions = Some [''a''], tv_roles = []\<rparr>, timestamp = 1000\<rparr>],
         events = []\<rparr>)
   \<and> fst (verifyToken (\<lambda>r. Inr \<lparr>tv_user = None, tv_permissions = None, tv_roles = []\<rparr>)
          61000 61005 None
      \<lparr>config = \<lparr>onTokenRefresh = None, onAuthError = None\<rparr>, token = Some ''T1'',
       tokenCache = [''token_T1'' \<mapsto> \<lparr>cached_data =
           \<lparr>tv_user = None, tv_permissions = Some [''a''], tv_roles = []\<rparr>, timestamp = 1000\<rparr>],
       events = []\<rparr>)
     = Inr \<lparr>tv_user = None, tv_permissions = Some [], tv_roles = []\<rparr>
   \<and> tokenCache (snd (verifyToken
          (\<lambda>r. Inr \<lparr>tv_user = None, tv_permissions = None, tv_roles = []\<rparr>) 61000 61005 None
      \<lparr>config = \<lparr>onTokenRefresh = None, onAuthError = None\<rparr>, token = Some ''T1'',
       tokenCache = [''token_T1'' \<mapsto> \<lparr>cached_data =
           \<lparr>tv_user = None, tv_permissions = Some [''a''], tv_roles = []\<rparr>, timestamp = 1000\<rparr>],
       events = []\<rparr>)) ''token_T1''
     = Some \<lparr>cached_data = \<lparr>tv_user = None, tv_permissions = Some [], tv_roles = []\<rparr>,
             timestamp = 61005\<rparr>"
proof -
  define d where "d = \<lparr>tv_user = None, tv_permissions = Some [''a''], tv_roles = []\<rparr>"
  define c where "c =
      \<lparr>config = \<lparr>onTokenRefresh = None, onAuthError = None\<rparr>, token = Some ''T1'',
       tokenCache = [''token_T1'' \<mapsto> \<lparr>cached_data = d, timestamp = 1000\<rparr>],
       events = []\<rparr>"
  define r where "r = \<lparr>tv_user = None, tv_permissions = None, tv_roles = []\<rparr>"
  have h1: "or_else None (token c) = Some ''T1''"
    by (simp add: or_else_def truthy_opt_def c_def)
  have h2: "''T1'' \<noteq> []" by simp
  have h3: "tokenCache c (cacheKey ''T1'') = Some \<lparr>cached_data = d, timestamp = 1000\<rparr>"
    by (simp add: c_def cacheKey_def)
  from verifyToken_cache_ttl [OF h1 h2 h3, where ?t1.0 = 60999 and ?t2.0 = 61005
      and transport = "\<lambda>q. Inr r"]
  have hit: "verifyToken (\<lambda>q. Inr r) 60999 61005 None c = (Inr d, c)"
    by simp
  from verifyToken_cache_ttl [OF h1 h2 h3, where ?t1.0 = 61000 and ?t2.0 = 61005
      and transport = "\<lambda>q. Inr r"]
  have miss: "fst (verifyToken (\<lambda>q. Inr r) 61000 61005 None c)
        = Inr (enrichPermissionsFromRoles r)
      \<and> tokenCache (snd (verifyToken (\<lambda>q. Inr r) 61000 61005 None c)) (cacheKey ''T1'')
        = Some \<lparr>cached_data = enrichPermissionsFromRoles r, timestamp = 61005\<rparr>"
    by simp
  have e: "enrichPermissionsFromRoles r
      = \<lparr>tv_user = None, tv_permissions = Some [], tv_roles = []\<rparr>"
    by (simp add: r_def enrichPermissionsFromRoles_def new_Set_def Array_from_def roles_of_def)
  from hit miss e show ?thesis
    by (simp add: c_def d_def r_def cacheKey_def)
qed

section \<open>The route guard\<close>

lemma ctx_hasPermission_resolves:
  "\<exists>b ctx'. ctx_hasPermission transport permission ctx = (Inr b, ctx')"
proof (cases "truthy_opt (ctx_token ctx)")
  case False
  then show ?thesis by (auto simp: ctx_hasPermission_def)
next
  case True
  obtain b where "fst (hasPermission transport permission (ctx_token ctx) (ctx_client ctx)) = Inr b"
    using hasPermission_resolves by blast
  with True show ?thesis
    by (cases "hasPermission transport permission (ctx_token ctx) (ctx_client ctx)")
       (simp add: ctx_hasPermission_def)
qed

lemma ctx_hasRole_resolves:
  "\<exists>b ctx'. ctx_hasRole transport role ctx = (Inr b, ctx')"
proof (cases "truthy_opt (ctx_token ctx)")
  case False
  then show ?thesis by (auto simp: ctx_hasRole_def)
next
  case True
  obtain b where "fst (hasRole transport role (ctx_token ctx) (ctx_client ctx)) = Inr b"
    using hasRole_resolves by blast
  with True show ?thesis
    by (cases "hasRole transport role (ctx_token ctx) (ctx_client ctx)")
       (simp add: ctx_hasRole_def)
qed

text \<open>
  C9. \<^verbatim>\<open>checkAccess\<close> decides in this order. A user who is not authenticated is
  denied: \<^verbatim>\<open>hasAccess\<close> becomes false and the context, with the client and its trace
  of requests, is untouched, whatever \<^verbatim>\<open>requiredPermission\<close> and \<^verbatim>\<open>requiredRole\<close>
  are; once loading is over the guard renders Unauthorized. For an authenticated user, a
  set (non-empty) \<^verbatim>\<open>requiredPermission\<close> makes \<^verbatim>\<open>hasAccess\<close> the result of the
  permission check; otherwise a set \<^verbatim>\<open>requiredRole\<close> makes it the result of the role
  check; otherwise access is allowed and nothing is asked.
\<close>

theorem checkAccess_priority:
  "(\<not> isAuthenticated (guard_ctx g) \<longrightarrow>
      checkAccess ptransport rtransport requiredPermission requiredRole g
        = (Inr (), g\<lparr>hasAccess := Some False\<rparr>)
      \<and> events (ctx_client (guard_ctx
           (snd (checkAccess ptransport rtransport requiredPermission requiredRole g))))
          = events (ctx_client (guard_ctx g))
      \<and> (\<not> ctx_isLoading (guard_ctx g) \<longrightarrow>
           (\<exists>target. render window_defined redirectTo
              (snd (checkAccess ptransport rtransport requiredPermission requiredRole g))
             = Unauthorized target)))
   \<and> (isAuthenticated (guard_ctx g) \<and> truthy_opt requiredPermission \<longrightarrow>
      (\<exists>permitted ctx'.
          ctx_hasPermission ptransport (the requiredPermission) (guard_ctx g) = (Inr permitted, ctx')
          \<and> checkAccess ptransport rtransport requiredPermission requiredRole g
             = (Inr (), g\<lparr>guard_ctx := ctx', hasAccess := Some permitted\<rparr>)))
   \<and> (isAuthenticated (guard_ctx g) \<and> \<not> truthy_opt requiredPermission \<and> truthy_opt requiredRole \<longrightarrow>
      (\<exists>hasRequiredRole ctx'.
          ctx_hasRole rtransport (the requiredRole) (guard_ctx g) = (Inr hasRequiredRole, ctx')
          \<and> checkAccess ptransport rtransport requiredPermission requiredRole g
             = (Inr (), g\<lparr>guard_ctx := ctx', hasAccess := Some hasRequiredRole\<rparr>)))
   \<and> (isAuthenticated (guard_ctx g) \<and> \<not> truthy_opt requiredPermission
        \<and> \<not> truthy_opt requiredRole \<longrightarrow>
      checkAccess ptransport rtransport requiredPermission requiredRole g
        = (Inr (), g\<lparr>hasAccess := Some True\<rparr>))"
proof (intro conjI impI; (elim conjE)?)
  {
    assume n: "\<not> isAuthenticated (guard_ctx g)"
    then show deny: "checkAccess ptransport rtransport requiredPermission requiredRole g
        = (Inr (), g\<lparr>hasAccess := Some False\<rparr>)"
      by (simp add: checkAccess_def)
    show "events (ctx_client (guard_ctx
           (snd (checkAccess ptransport rtransport requiredPermission requiredRole g))))
          = events (ctx_client (guard_ctx g))"
      by (simp add: deny)
    show "\<exists>target. render window_defined redirectTo
              (snd (checkAccess ptransport rtransport requiredPermission requiredRole g))
             = Unauthorized target"
      if "\<not> ctx_isLoading (guard_ctx g)"
      using that by (simp add: deny render_def)
  }
  {
    assume a: "isAuthenticated (guard_ctx g)" and p: "truthy_opt requiredPermission"
    obtain b ctx' where
      "ctx_hasPermission ptransport (the requiredPermission) (guard_ctx g) = (Inr b, ctx')"
      using ctx_hasPermission_resolves by blast
    with a p show "\<exists>permitted ctx'.
          ctx_hasPermission ptransport (the requiredPermission) (guard_ctx g) = (Inr permitted, ctx')
          \<and> checkAccess ptransport rtransport requiredPermission requiredRole g
             = (Inr (), g\<lparr>guard_ctx := ctx', hasAccess := Some permitted\<rparr>)"
      by (simp add: checkAccess_def)
  }
  {
    assume a: "isAuthenticated (guard_ctx g)" and p: "\<not> truthy_opt requiredPermission"
      and r: "truthy_opt requiredRole"
    obtain b ctx' where
      "ctx_hasRole rtransport (the requiredRole) (guard_ctx g) = (Inr b, ctx')"
      using ctx_hasRole_resolves by blast
    with a p r show "\<exists>hasRequiredRole ctx'.
          ctx_hasRole rtransport (the requiredRole) (guard_ctx g) = (Inr hasRequiredRole, ctx')
          \<and> checkAccess ptransport rtransport requiredPermission requiredRole g
             = (Inr (), g\<lparr>guard_ctx := ctx', hasAccess := Some hasRequiredRole\<rparr>)"
      by (simp add: checkAccess_def)
  }
  {
    assume "isAuthenticated (guard_ctx g)" and "\<not> truthy_opt requiredPermission"
      and "\<not> truthy_opt requiredRole"
    then show "checkAccess ptransport rtransport requiredPermission requiredRole g
        = (Inr (), g\<lparr>hasAccess := Some True\<rparr>)"
      by (simp add: checkAccess_def)
  }
qed

text \<open>An unauthenticated user facing a guard that requires the role admin; then an
  authenticated user whom the service grants the permission and refuses the role.\<close>

theorem checkAccess_priority_witness:
  "hasAccess (snd (checkAccess (\<lambda>r. Inr \<lparr>has_permission = True, pc_permission = ''forms.create''\<rparr>)
      (\<lambda>r. Inr \<lparr>has_role = False, rc_role = ''admin''\<rparr>)
      None (Some ''admin'')
      \<lparr>guard_ctx = \<lparr>ctx_client = \<lparr>config = \<lparr>onTokenRefresh = None, onAuthError = None\<rparr>, token = Some ''T0'',
           tokenCache = Map.empty, events = []\<rparr>,
         ctx_user = None, ctx_token = Some ''T0'', ctx_isLoading = False\<rparr>,
       hasAccess = None\<rparr>)) = Some False
   \<and> events (ctx_client (guard_ctx (snd (checkAccess (\<lambda>r. Inr \<lparr>has_permission = True, pc_permission = ''forms.create''\<rparr>)
      (\<lambda>r. Inr \<lparr>has_role = False, rc_role = ''admin''\<rparr>)
      None (Some ''admin'')
      \<lparr>guard_ctx = \<lparr>ctx_client = \<lparr>config = \<lparr>onTokenRefresh = None, onAuthError = None\<rparr>, token = Some ''T0'',
           tokenCache = Map.empty, events = []\<rparr>,
         ctx_user = None, ctx_token = Some ''T0'', ctx_isLoading = False\<rparr>,
       hasAccess = None\<rparr>)))) = []
   \<and> render True ''/login'' (snd (checkAccess (\<lambda>r. Inr \<lparr>has_permission = True, pc_permission = ''forms.create''\<rparr>)
      (\<lambda>r. Inr \<lparr>has_role = False, rc_role = ''admin''\<rparr>)
      None (Some ''admin'')
      \<lparr>guard_ctx = \<lparr>ctx_client = \<lparr>config = \<lparr>onTokenRefresh = None, onAuthError = None\<rparr>, token = Some ''T0'',
           tokenCache = Map.empty, events = []\<rparr>,
         ctx_user = None, ctx_token = Some ''T0'', ctx_isLoading = False\<rparr>,
       hasAccess = None\<rparr>)) = Unauthorized (Some ''/login'')
   \<and> hasAccess (snd (checkAccess (\<lambda>r. Inr \<lparr>has_permission = True, pc_permission = ''forms.create''\<rparr>)
      (\<lambda>r. Inr \<lparr>has_role = False, rc_role = ''admin''\<rparr>)
      (Some ''forms.create'') (Some ''admin'')
      \<lparr>guard_ctx = \<lparr>ctx_client = \<lparr>config = \<lparr>onTokenRefresh = None, onAuthError = None\<rparr>, token = Some ''T0'',
           tokenCache = Map.empty, events = []\<rparr>,
         ctx_user = Some \<lparr>user_id = IdNumber 1, user_name = ''u'', user_email = ''a@b.com'',
           user_roles = None\<rparr>, ctx_token = Some ''T0'', ctx_isLoading = False\<rparr>,
       hasAccess = None\<rparr>)) = Some True
   \<and> hasAccess (snd (checkAccess (\<lambda>r. Inr \<lparr>has_permission = True, pc_permission = ''forms.create''\<rparr>)
      (\<lambda>r. Inr \<lparr>has_role = False, rc_role = ''admin''\<rparr>)
      None (Some ''admin'')
      \<lparr>guard_ctx = \<lparr>ctx_client = \<lparr>config = \<lparr>onTokenRefresh = None, onAuthError = None\<rparr>, token = Some ''T0'',
           tokenCache = Map.empty, events = []\<rparr>,
         ctx_user = Some \<lparr>user_id = IdNumber 1, user_name = ''u'', user_email = ''a@b.com'',
           user_roles = None\<rparr>, ctx_token = Some ''T0'', ctx_isLoading = False\<rparr>,
       hasAccess = None\<rparr>)) = Some False
   \<and> hasAccess (snd (checkAccess (\<lambda>r. Inr \<lparr>has_permission = True, pc_permission = ''forms.create''\<rparr>)
      (\<lambda>r. Inr \<lparr>has_role = False, rc_role = ''admin''\<rparr>)
      None None
      \<lparr>guard_ctx = \<lparr>ctx_client = \<lparr>config = \<lparr>onTokenRefresh = None, onAuthError = None\<rparr>, token = Some ''T0'',
           tokenCache = Map.empty, events = []\<rparr>,
         ctx_user = Some \<lparr>user_id = IdNumber 1, user_name = ''u'', user_email = ''a@b.com'',
           user_roles = None\<rparr>, ctx_token = Some ''T0'', ctx_isLoading = False\<rparr>,
       hasAccess = None\<rparr>)) = Some True"
proof -
  define c where "c = \<lparr>config = \<lparr>onTokenRefresh = None, onAuthError = None\<rparr>, token = Some ''T0'',
           tokenCache = Map.empty, events = []\<rparr>"
  define gu where "gu =
      \<lparr>guard_ctx = \<lparr>ctx_client = c, ctx_user = None, ctx_token = Some ''T0'',
         ctx_isLoading = False\<rparr>, hasAccess = None\<rparr>"
  define ga where "ga =
      \<lparr>guard_ctx = \<lparr>ctx_client = c, ctx_user = Some \<lparr>user_id = IdNumber 1, user_name = ''u'', user_email = ''a@b.com'',
           user_roles = None\<rparr>,
         ctx_token = Some ''T0'', ctx_isLoading = False\<rparr>, hasAccess = None\<rparr>"
  define pt where "pt = (\<lambda>r::request. Inr \<lparr>has_permission = True, pc_permission = ''forms.create''\<rparr>
      :: thrown + permission_check_response)"
  define rt where "rt = (\<lambda>r::request. Inr \<lparr>has_role = False, rc_role = ''admin''\<rparr>
      :: thrown + role_check_response)"
  have nu: "\<not> isAuthenticated (guard_ctx gu)" and au: "isAuthenticated (guard_ctx ga)"
    by (simp_all add: isAuthenticated_def gu_def ga_def)
  have tr: "truthy_opt (Some ''forms.create'')" "truthy_opt (Some ''admin'')" "\<not> truthy_opt None"
    by (simp_all add: truthy_opt_def truthy_def)
  from checkAccess_priority
      [where g = gu and ptransport = pt and rtransport = rt and requiredPermission = None
         and requiredRole = "Some ''admin''" and window_defined = True
         and redirectTo = "''/login''"] nu
  have deny: "checkAccess pt rt None (Some ''admin'') gu = (Inr (), gu\<lparr>hasAccess := Some False\<rparr>)"
    by blast
  have p1: "hasAccess (snd (checkAccess pt rt None (Some ''admin'') gu)) = Some False"
    and p2: "events (ctx_client (guard_ctx (snd (checkAccess pt rt None (Some ''admin'') gu)))) = []"
    and p3: "render True ''/login'' (snd (checkAccess pt rt None (Some ''admin'') gu))
        = Unauthorized (Some ''/login'')"
    unfolding deny by (simp_all add: gu_def c_def render_def truthy_def)
  have hp: "fst (ctx_hasPermission pt ''forms.create'' (guard_ctx ga)) = Inr True"
    by (simp add: ctx_hasPermission_def hasPermission_def send_def pt_def ga_def
          truthy_opt_def truthy_def split: prod.split)
  from checkAccess_priority
      [where g = ga and ptransport = pt and rtransport = rt
         and requiredPermission = "Some ''forms.create''" and requiredRole = "Some ''admin''"]
    au tr hp
  have p4: "hasAccess (snd (checkAccess pt rt (Some ''forms.create'') (Some ''admin'') ga)) = Some True"
    by auto
  have hr: "fst (ctx_hasRole rt ''admin'' (guard_ctx ga)) = Inr False"
    by (simp add: ctx_hasRole_def hasRole_def send_def rt_def ga_def
          truthy_opt_def truthy_def split: prod.split)
  from checkAccess_priority
      [where g = ga and ptransport = pt and rtransport = rt
         and requiredPermission = None and requiredRole = "Some ''admin''"]
    au tr hr
  have p5: "hasAccess (snd (checkAccess pt rt None (Some ''admin'') ga)) = Some False"
    by auto
  from checkAccess_priority
      [where g = ga and ptransport = pt and rtransport = rt
         and requiredPermission = None and requiredRole = None]
    au tr
  have p6: "hasAccess (snd (checkAccess pt rt None None ga)) = Some True"
    by auto
  from p1 p2 p3 p4 p5 p6 show ?thesis
    by (simp only: gu_def ga_def pt_def rt_def c_def)
qed

end
